theory Spec2Isabelle
  imports Complex_Main
begin

section \<open>Values exchanged with the backend\<close>

text \<open>
  The application is one Python file, \<^verbatim>\<open>streamlit_app.py\<close>. Its functions read
  widget values, call the backend over HTTP, write to \<^verbatim>\<open>st.session_state\<close> and print
  to the page. The model below makes these four things explicit: widget values and backend
  replies are arguments, the session and the printed page are part of a state that every
  function takes and returns, and every request is appended to a log.

  A Python string is the list of its code points, so that a string of the user or of the
  backend may hold any character. \<open>lit\<close> turns an ASCII literal of the source into such a
  string. The literal text of a printed message stays an Isabelle string.

  A decoded JSON document is a value of \<open>json\<close>. A number is kept as the exact rational it
  denotes. An object is the list of its items; a key occurs once.
\<close>

type_synonym pystr = "nat list"

definition lit :: "string \<Rightarrow> pystr" where
  "lit s = map of_char s"

datatype json =
    JNull
  | JBool bool
  | JNum rat
  | JStr pystr
  | JArr "json list"
  | JObj "(pystr \<times> json) list"

datatype exn =
    Timeout
  | ConnectionError
  | JSONDecodeError
  | AttributeError
  | ValueError
  | TypeError
  | OverflowError
  | OtherError string

text \<open>Python's truth value of a decoded JSON value, as \<^verbatim>\<open>if x:\<close> tests it.\<close>

fun truthy :: "json \<Rightarrow> bool" where
  "truthy JNull = False"
| "truthy (JBool b) = b"
| "truthy (JNum r) = (r \<noteq> 0)"
| "truthy (JStr s) = (s \<noteq> [])"
| "truthy (JArr xs) = (xs \<noteq> [])"
| "truthy (JObj kvs) = (kvs \<noteq> [])"

text \<open>
  \<^verbatim>\<open>d.get(k, default)\<close>: the value under \<open>k\<close>, the default when the key is absent, and
  an \<^verbatim>\<open>AttributeError\<close> when \<open>d\<close> is not a dictionary. \<^verbatim>\<open>d.get(k)\<close> has default
  \<^verbatim>\<open>None\<close>.
\<close>

fun get_default :: "json \<Rightarrow> string \<Rightarrow> json \<Rightarrow> exn + json" where
  "get_default (JObj kvs) k d = Inr (case map_of kvs (lit k) of None \<Rightarrow> d | Some v \<Rightarrow> v)"
| "get_default _ k d = Inl AttributeError"

definition get :: "json \<Rightarrow> string \<Rightarrow> exn + json" where
  "get d k = get_default d k JNull"

text \<open>
  \<^verbatim>\<open>f"{x:.2f}"\<close> accepts a number (a boolean is one); a string raises
  \<^verbatim>\<open>ValueError\<close>, anything else \<^verbatim>\<open>TypeError\<close>. A number is converted to a float
  first, and an integer too large for a float raises \<^verbatim>\<open>OverflowError\<close>: that is one
  of absolute value \<open>2 ^ 1024 - 2 ^ 970\<close> or more. The digits themselves are not
  computed: the page keeps the value and the format, see \<open>Fixed2\<close> below.
\<close>

fun format_2f :: "json \<Rightarrow> exn + json" where
  "format_2f (JNum r) =
     (if 2 ^ 1024 - 2 ^ 970 \<le> \<bar>r\<bar> then Inl OverflowError else Inr (JNum r))"
| "format_2f (JBool b) = Inr (JBool b)"
| "format_2f (JStr s) = Inl ValueError"
| "format_2f _ = Inl TypeError"

text \<open>
  \<^verbatim>\<open>s.strip()\<close> removes white space at both ends. The code points that Python counts
  as white space are U+0009 to U+000D, U+001C to U+0020, U+0085, U+00A0, U+1680, U+2000 to
  U+200A, U+2028, U+2029, U+202F, U+205F and U+3000.
\<close>

definition isspace :: "nat \<Rightarrow> bool" where
  "isspace c =
     ((0x09 \<le> c \<and> c \<le> 0x0D) \<or> (0x1C \<le> c \<and> c \<le> 0x20) \<or> c = 0x85 \<or> c = 0xA0
      \<or> c = 0x1680 \<or> (0x2000 \<le> c \<and> c \<le> 0x200A) \<or> c = 0x2028 \<or> c = 0x2029
      \<or> c = 0x202F \<or> c = 0x205F \<or> c = 0x3000)"

definition strip :: "pystr \<Rightarrow> pystr" where
  "strip s = rev (dropWhile isspace (rev (dropWhile isspace s)))"

text \<open>
  Python's \<^verbatim>\<open>==\<close> on decoded JSON values: a boolean equals the number 0 or 1, lists are
  equal item by item, dictionaries are equal when they hold the same keys with equal values.
\<close>

fun py_eq :: "json \<Rightarrow> json \<Rightarrow> bool" where
  "py_eq JNull JNull = True"
| "py_eq (JBool a) (JBool b) = (a = b)"
| "py_eq (JBool a) (JNum r) = ((if a then 1 else 0) = r)"
| "py_eq (JNum r) (JBool a) = ((if a then 1 else 0) = r)"
| "py_eq (JNum r) (JNum q) = (r = q)"
| "py_eq (JStr s) (JStr t) = (s = t)"
| "py_eq (JArr xs) (JArr ys) = list_all2 py_eq xs ys"
| "py_eq (JObj a) (JObj b) =
     (length a = length b \<and>
      list_all (\<lambda>(k, v). list_ex (\<lambda>(k', v'). k' = k \<and> py_eq v v') b) a)"
| "py_eq _ _ = False"

text \<open>\<^verbatim>\<open>s.split(" (")[0]\<close>: the part of \<open>s\<close> before the first \<^verbatim>\<open>" ("\<close>, all of \<open>s\<close> when there is none.\<close>

fun split_first :: "pystr \<Rightarrow> pystr" where
  "split_first [] = []"
| "split_first (c # cs) = (if take 2 (c # cs) = lit '' ('' then [] else c # split_first cs)"

text \<open>\<^verbatim>\<open>next((x for x in xs if p(x)), None)\<close>: the first element that satisfies \<open>p\<close>.\<close>

fun next_where :: "('a \<Rightarrow> bool) \<Rightarrow> 'a list \<Rightarrow> 'a option" where
  "next_where p [] = None"
| "next_where p (x # xs) = (if p x then Some x else next_where p xs)"

subsection \<open>Projects, users, replies\<close>

text \<open>
  The two list endpoints return objects with a success flag and a list. Their entries are
  read by fixed keys, so they are records: a project has \<^verbatim>\<open>id\<close>, \<^verbatim>\<open>name\<close>,
  \<^verbatim>\<open>description\<close>, \<^verbatim>\<open>status\<close> (each may be absent, that is \<open>None\<close>), a user has
  \<^verbatim>\<open>basecamp_user_id\<close> (\<open>JNull\<close> when absent), \<^verbatim>\<open>name\<close> and \<^verbatim>\<open>email\<close>.
  The types fix the shape of a listing: a user entry has a name and an email, both strings,
  as the backend's user type has. The two submission endpoints return documents that the
  program stores and reads with \<^verbatim>\<open>.get\<close>; they stay values of \<open>json\<close>, of any shape.
\<close>

record project =
  p_id :: "json option"
  p_name :: "pystr option"
  p_description :: "pystr option"
  p_status :: "pystr option"

record user =
  basecamp_user_id :: json
  name :: pystr
  email :: pystr

record 'a listing =
  success :: bool
  items :: "'a list"

text \<open>
  What \<^verbatim>\<open>requests.get\<close> or \<^verbatim>\<open>requests.post\<close> does: it raises, or it returns
  a response with a status code, a body text and the result of \<^verbatim>\<open>response.json()\<close>
  (\<open>None\<close> when decoding raises).
\<close>

datatype 'a reply =
    Throws exn
  | Response nat pystr "'a option"

record upfile =
  file_name :: pystr
  file_bytes :: string

datatype request =
    Get string
  | Post string "(string \<times> upfile) list" "(string \<times> json) list"

section \<open>Session, page and the state a run threads\<close>

text \<open>
  \<^verbatim>\<open>st.session_state\<close> holds nine keys in this program. A key that was never set is
  \<open>None\<close>; a key set to Python's \<^verbatim>\<open>None\<close> is \<open>Some JNull\<close>.
\<close>

record session_state =
  user_role :: "json option"
  selected_project_id :: "json option"
  selected_project_name :: "json option"
  analysis_results :: "json option"
  uploaded_file :: "json option"
  project_brief_id :: "json option"
  content_writer_id :: "json option"
  submitted_content :: "json option"
  designer_results :: "json option"

text \<open>
  A line printed to the page. An f-string is the list of its parts: literal text, an
  interpolated string, an interpolated JSON value, a value under the format \<^verbatim>\<open>.2f\<close>,
  a status code, the text of an exception. The pictographs in the messages of the source
  are left out of the literal text. Layout (columns, expanders, forms, the spinner)
  prints nothing and is not modelled. The value of a widget is an argument of the function
  that shows it; a select box may hold any string, not only one of its options.
\<close>

datatype frag =
    Txt string
  | Str pystr
  | Val json
  | Fixed2 json
  | Code nat
  | ExnText exn

datatype ui =
    Header string
  | Subheader string
  | Info "frag list"
  | Warning "frag list"
  | Error "frag list"
  | Success "frag list"
  | Write "frag list"
  | Metric string "frag list"

record world =
  session :: session_state
  page :: "ui list"
  requests :: "request list"

text \<open>
  How a piece of code ends: it runs to its end, it executes \<^verbatim>\<open>return\<close>, it raises, or it
  calls \<^verbatim>\<open>st.rerun()\<close>, which abandons the run.
\<close>

datatype status = Normal | Returned | Raised exn | Rerun

type_synonym step = "world \<Rightarrow> status \<times> world"

definition skip :: step where
  "skip w = (Normal, w)"

definition return :: step where
  "return w = (Returned, w)"

definition raise :: "exn \<Rightarrow> step" where
  "raise e w = (Raised e, w)"

definition st_rerun :: step where
  "st_rerun w = (Rerun, w)"

definition emit :: "ui \<Rightarrow> step" where
  "emit u w = (Normal, w\<lparr>page := page w @ [u]\<rparr>)"

definition assign :: "(session_state \<Rightarrow> session_state) \<Rightarrow> step" where
  "assign f w = (Normal, w\<lparr>session := f (session w)\<rparr>)"

definition send :: "request \<Rightarrow> step" where
  "send r w = (Normal, w\<lparr>requests := requests w @ [r]\<rparr>)"

text \<open>Statements in sequence: the first one that does not end normally ends the block.\<close>

fun block :: "step list \<Rightarrow> step" where
  "block [] w = (Normal, w)"
| "block (m # ms) w = (case m w of (Normal, w') \<Rightarrow> block ms w' | (s, w') \<Rightarrow> (s, w'))"

definition if_then :: "bool \<Rightarrow> step \<Rightarrow> step" where
  "if_then c m = (if c then m else skip)"

text \<open>\<^verbatim>\<open>try: m except Exception as e: h(e)\<close>.\<close>

definition try_except :: "step \<Rightarrow> (exn \<Rightarrow> step) \<Rightarrow> step" where
  "try_except m h w = (case m w of (Raised e, w') \<Rightarrow> h e w' | r \<Rightarrow> r)"

text \<open>A function body: \<^verbatim>\<open>return\<close> ends the function, not its caller.\<close>

definition body :: "step \<Rightarrow> step" where
  "body m w = (case m w of (Returned, w') \<Rightarrow> (Normal, w') | r \<Rightarrow> r)"

text \<open>An expression that may raise, followed by the code that uses its value.\<close>

definition compute :: "exn + 'a \<Rightarrow> ('a \<Rightarrow> step) \<Rightarrow> step" where
  "compute x k = (case x of Inl e \<Rightarrow> raise e | Inr v \<Rightarrow> k v)"

text \<open>A statement that reads \<^verbatim>\<open>st.session_state\<close>.\<close>

definition with_session :: "(session_state \<Rightarrow> step) \<Rightarrow> step" where
  "with_session f w = f (session w) w"

definition emits :: "ui list \<Rightarrow> step" where
  "emits us w = (Normal, w\<lparr>page := page w @ us\<rparr>)"

text \<open>\<^verbatim>\<open>st.session_state.get(k)\<close>: \<^verbatim>\<open>None\<close> when the key was never set.\<close>

definition session_get :: "json option \<Rightarrow> json" where
  "session_get v = (case v of None \<Rightarrow> JNull | Some x \<Rightarrow> x)"

section \<open>Role pages\<close>

text \<open>
  \<^verbatim>\<open>show_role_selection_page\<close>: each of the two buttons stores its role and reruns.
\<close>

definition show_role_selection_page :: "bool \<Rightarrow> bool \<Rightarrow> step" where
  "show_role_selection_page brand_manager_button content_writer_button =
     body (block
       [emit (Header ''AI Project Brief Analyzer''),
        emit (Write [Txt ''## Select Your Role'']),
        emit (Write [Txt ''Choose how you want to use the system:'']),
        if_then brand_manager_button
          (block [assign (\<lambda>s. s\<lparr>user_role := Some (JStr (lit ''brand_manager''))\<rparr>), st_rerun]),
        if_then content_writer_button
          (block [assign (\<lambda>s. s\<lparr>user_role := Some (JStr (lit ''content_writer''))\<rparr>), st_rerun])])"

text \<open>
  \<^verbatim>\<open>show_brand_manager_page\<close> and \<^verbatim>\<open>show_content_writer_page\<close>: the header, the
  Change Role button, then the sidebar and the selected tab. The tab that the sidebar
  selects is the argument \<open>tab\<close>; \<open>change_role\<close> is the value of the button.
\<close>

definition show_brand_manager_page :: "bool \<Rightarrow> step \<Rightarrow> step" where
  "show_brand_manager_page change_role tab =
     body (block
       [emit (Header ''Brand Manager Dashboard''),
        if_then change_role
          (block [assign (\<lambda>s. s\<lparr>user_role := Some JNull\<rparr>), st_rerun]),
        tab])"

definition show_content_writer_page :: "bool \<Rightarrow> step \<Rightarrow> step" where
  "show_content_writer_page change_role tab =
     body (block
       [emit (Header ''Content Writer Dashboard''),
        if_then change_role
          (block [assign (\<lambda>s. s\<lparr>user_role := Some JNull\<rparr>), st_rerun]),
        tab])"

text \<open>
  \<^verbatim>\<open>main\<close>: the role key is created on the first run, then the page of the current role
  is shown. The three pages are arguments.
\<close>

definition main :: "step \<Rightarrow> step \<Rightarrow> step \<Rightarrow> step" where
  "main role_selection_page brand_manager_page content_writer_page =
     body (block
       [with_session (\<lambda>s.
          if_then (user_role s = None) (assign (\<lambda>s. s\<lparr>user_role := Some JNull\<rparr>))),
        with_session (\<lambda>s.
          if user_role s = Some JNull then role_selection_page
          else if user_role s = Some (JStr (lit ''brand_manager'')) then brand_manager_page
          else if user_role s = Some (JStr (lit ''content_writer'')) then content_writer_page
          else skip)])"

text \<open>The session before anything was stored in it.\<close>

definition empty_session :: session_state where
  "empty_session =
     \<lparr>user_role = None, selected_project_id = None, selected_project_name = None,
      analysis_results = None, uploaded_file = None, project_brief_id = None,
      content_writer_id = None, submitted_content = None, designer_results = None\<rparr>"

section \<open>Stage 1: \<^verbatim>\<open>upload_and_analyze_tab\<close>\<close>

subsection \<open>Project selection (lines 272 to 313)\<close>

definition project_options :: "project list \<Rightarrow> pystr list" where
  "project_options projects =
     [lit ''Select a project...'']
     @ map (\<lambda>p. case p_name p of None \<Rightarrow> lit ''Unnamed Project'' | Some n \<Rightarrow> n)
         (filter (\<lambda>p. p_status p = Some (lit ''active'')) projects)
     @ [lit ''Other - Custom Project'']"

definition clear_selected_project :: step where
  "clear_selected_project =
     assign (\<lambda>s. s\<lparr>selected_project_id := Some JNull, selected_project_name := Some JNull\<rparr>)"

definition select_project :: "project listing reply \<Rightarrow> pystr \<Rightarrow> pystr \<Rightarrow> step" where
  "select_project projects_reply selected_project custom_name =
     try_except
       (block
         [send (Get ''/projects''),
          (case projects_reply of
             Throws e \<Rightarrow> raise e
           | Response code txt dec \<Rightarrow>
               if code = 200 then
                 (case dec of
                    None \<Rightarrow> raise JSONDecodeError
                  | Some pdata \<Rightarrow>
                      if success pdata \<and> items pdata \<noteq> [] then
                        (if selected_project = lit ''Select a project...'' then
                           block [emit (Warning [Txt ''Please select a project'']), return]
                         else if selected_project = lit ''Other - Custom Project'' then
                           (if strip custom_name = [] then
                              block [emit (Warning [Txt ''Please provide a custom project name'']),
                                     return]
                            else
                              assign (\<lambda>s. s\<lparr>selected_project_id := Some JNull,
                                              selected_project_name := Some (JStr custom_name)\<rparr>))
                         else
                           (case next_where (\<lambda>p. p_name p = Some selected_project) (items pdata) of
                              None \<Rightarrow> skip
                            | Some sel \<Rightarrow>
                                block
                                  [assign (\<lambda>s. s\<lparr>selected_project_id := Some (session_get (p_id sel)),
                                                   selected_project_name :=
                                                     Some (case p_name sel of None \<Rightarrow> JNull
                                                           | Some n \<Rightarrow> JStr n)\<rparr>),
                                   emit (Info [Txt ''**Project Details:** '',
                                               Str (case p_description sel of
                                                      None \<Rightarrow> lit ''No description available''
                                                    | Some d \<Rightarrow> d)])]))
                      else
                        block [emit (Info [Txt ''No projects found. Using fallback options.'']),
                               clear_selected_project])
               else
                 block [emit (Error [Txt ''Failed to fetch projects from backend: '', Code code]),
                        clear_selected_project])])
       (\<lambda>e. block [emit (Error [Txt ''Error fetching projects: '', ExnText e]),
                    clear_selected_project])"

subsection \<open>Content writer selection (lines 315 to 370)\<close>

text \<open>
  The selection prints to the page and yields \<^verbatim>\<open>content_writer_id\<close>; it neither reads nor
  writes the session. The model returns the identifier and the printed lines. \<open>JNull\<close> is
  Python's \<^verbatim>\<open>None\<close>. A user's label is \<^verbatim>\<open>f"{user['name']} ({user['email']})"\<close>.
\<close>

definition user_label :: "user \<Rightarrow> pystr" where
  "user_label u = name u @ lit '' ('' @ email u @ lit '')''"

definition content_writer_options :: "user list \<Rightarrow> pystr list" where
  "content_writer_options content_writers = lit ''None'' # map user_label content_writers"

definition resolve_content_writer :: "user list \<Rightarrow> pystr \<Rightarrow> json \<times> ui list" where
  "resolve_content_writer content_writers selected_content_writer =
     (if selected_content_writer \<noteq> lit ''None'' then
        (case next_where (\<lambda>u. name u = split_first selected_content_writer) content_writers of
           None \<Rightarrow> (JNull, [])
         | Some selected_user \<Rightarrow>
             (basecamp_user_id selected_user,
              [Success [Txt ''Selected: '', Str (name selected_user), Txt '' (Basecamp ID: '',
                        Val (basecamp_user_id selected_user), Txt '')'']]))
      else (JNull, []))"

definition select_content_writer :: "user listing reply \<Rightarrow> pystr \<Rightarrow> json \<times> ui list" where
  "select_content_writer users_reply selected_content_writer =
     (case users_reply of
        Throws e \<Rightarrow>
          (JNull, [Error [Txt ''Error connecting to backend: '', ExnText e],
                   Info [Txt ''Make sure the backend server is running'']])
      | Response code txt dec \<Rightarrow>
          if code = 200 then
            (case dec of
               None \<Rightarrow>
                 (JNull, [Error [Txt ''Error connecting to backend: '', ExnText JSONDecodeError],
                          Info [Txt ''Make sure the backend server is running'']])
             | Some users_data \<Rightarrow>
                 if success users_data \<and> items users_data \<noteq> [] then
                   (let content_writers =
                          filter (\<lambda>u. truthy (basecamp_user_id u)) (items users_data);
                        chosen =
                          (if content_writers \<noteq> [] then
                             resolve_content_writer content_writers selected_content_writer
                           else
                             (JNull,
                              [Warning [Txt ''No content writers available with Basecamp access'']]))
                    in (fst chosen,
                        snd chosen @
                        (if truthy (fst chosen) then
                           Subheader ''Selected Team Member'' #
                           (case next_where (\<lambda>u. py_eq (basecamp_user_id u) (fst chosen)) content_writers of
                              None \<Rightarrow> []
                            | Some selected_cw \<Rightarrow>
                                [Info [Txt ''**Content Writer:** '', Str (user_label selected_cw)]])
                         else
                           [Warning [Txt
                              ''Please select a content writer to receive the Stage 1 report'']])))
                 else (JNull, [Error [Txt ''Failed to fetch users from backend'']]))
          else (JNull, [Error [Txt ''Backend error: '', Code code]]))"

subsection \<open>Result projection: \<^verbatim>\<open>show_analysis_summary\<close> (lines 579 to 596)\<close>

text \<open>
  Three metrics and, when the response carries a project brief identifier, one info line.
  \<^verbatim>\<open>st.metric\<close> accepts a number, a string or \<^verbatim>\<open>None\<close> as its value and raises
  \<^verbatim>\<open>TypeError\<close> on a list or a dictionary.
\<close>

fun metric_value :: "json \<Rightarrow> exn + json" where
  "metric_value (JArr xs) = Inl TypeError"
| "metric_value (JObj kvs) = Inl TypeError"
| "metric_value v = Inr v"

definition show_analysis_summary :: "json \<Rightarrow> step" where
  "show_analysis_summary results =
     body (block
       [emit (Subheader ''Quick Summary''),
        compute (get_default results ''processing_time'' (JNum 0)) (\<lambda>t.
          compute (format_2f t) (\<lambda>v.
            emit (Metric ''Processing Time'' [Fixed2 v, Txt ''s'']))),
        compute (get_default results ''analysis_type'' (JStr (lit ''Unknown''))) (\<lambda>a.
          compute (metric_value a) (\<lambda>v.
            emit (Metric ''Analysis Type'' [Val v]))),
        compute (get results ''success'') (\<lambda>ok.
          emit (Metric ''Status'' [Txt (if truthy ok then ''Complete'' else ''Failed'')])),
        compute (get_default results ''report_data'' (JObj [])) (\<lambda>rd.
          compute (get rd ''project_brief_id'') (\<lambda>i.
            if_then (truthy i) (emit (Info [Txt ''**Project ID:** '', Val i]))))])"

subsection \<open>The inline content form (lines 447 to 462)\<close>

definition content_submission_form :: "bool \<Rightarrow> pystr \<Rightarrow> step" where
  "content_submission_form submit_content content_text =
     if_then (submit_content \<and> strip content_text \<noteq> [])
       (block
         [emit (Info [Txt (''**Note:** Designer selection will be handled by the content '' @
                           ''writer in their dashboard.'')]),
          emit (Success [Txt (''Content submitted successfully! The content writer will now '' @
                              ''handle designer selection and report generation.'')]),
          assign (\<lambda>s. s\<lparr>submitted_content := Some (JStr content_text)\<rparr>)])"

subsection \<open>The Analyze button (lines 387 to 475)\<close>

text \<open>The three \<^verbatim>\<open>except\<close> clauses, in the source's order.\<close>

fun upload_error :: "exn \<Rightarrow> ui" where
  "upload_error Timeout =
     Error [Txt ''Analysis timed out. Please try again with a shorter document.'']"
| "upload_error ConnectionError =
     Error [Txt ''Connection error. Please check if the backend server is running.'']"
| "upload_error e = Error [Txt ''Unexpected error: '', ExnText e]"

definition upload_handler :: "exn \<Rightarrow> step" where
  "upload_handler e = emit (upload_error e)"

definition upload_data :: "json \<Rightarrow> pystr \<Rightarrow> bool \<Rightarrow> session_state \<Rightarrow> (string \<times> json) list" where
  "upload_data cw_id analysis_type include_suggestions s =
     [(''content_writer_id'', cw_id),
      (''analysis_type'', JStr analysis_type),
      (''include_suggestions'', JBool include_suggestions),
      (''project_id'', session_get (selected_project_id s)),
      (''project_name'', session_get (selected_project_name s))]"

definition stage1_success :: "json \<Rightarrow> upfile \<Rightarrow> json \<Rightarrow> bool \<Rightarrow> pystr \<Rightarrow> step" where
  "stage1_success cw_id file result submit_content content_text =
     block
       [assign (\<lambda>s. s\<lparr>analysis_results := Some result,
                       uploaded_file := Some (JStr (file_name file))\<rparr>),
        emit (Success [Txt ''Stage 1 Analysis completed successfully!'']),
        compute (get result ''basecamp_integration'') (\<lambda>basecamp_status.
          if_then (truthy basecamp_status)
            (block
              [emit (Subheader ''Basecamp Integration Status''),
               compute (get basecamp_status ''content_writer_uploaded'') (\<lambda>u.
                 if_then (truthy u)
                   (emit (Success [Txt ''Content Writer Report uploaded to Basecamp'']))),
               compute (get basecamp_status ''content_writer_notified'') (\<lambda>n.
                 if_then (truthy n)
                   (emit (Success [Txt ''Content Writer notification sent'']))),
               compute (get basecamp_status ''errors'') (\<lambda>errs.
                 if_then (truthy errs)
                   (emit (Error [Txt ''Some errors occurred: '', Val errs])))])),
        show_analysis_summary result,
        compute (get_default result ''report_data'' (JObj [])) (\<lambda>rd.
          compute (get rd ''project_brief_id'') (\<lambda>i.
            if_then (truthy i)
              (assign (\<lambda>s. s\<lparr>project_brief_id := Some i, content_writer_id := Some cw_id\<rparr>)))),
        emit (Subheader ''Stage 2: Submit Content for Designer''),
        emit (Info [Txt (''After the content writer completes their work, submit the content '' @
                         ''here to generate a designer report.'')]),
        content_submission_form submit_content content_text,
        emit (Info [Txt ''Switch to 'Analysis Results' tab to view detailed reports''])]"

text \<open>The \<^verbatim>\<open>try\<close> statement of lines 393 to 475: the call and what follows it.\<close>

definition post_upload ::
  "pystr \<Rightarrow> bool \<Rightarrow> json \<Rightarrow> upfile \<Rightarrow> json reply \<Rightarrow> bool \<Rightarrow> pystr \<Rightarrow> step" where
  "post_upload analysis_type include_suggestions cw_id file upload_reply
       submit_content content_text =
     try_except
       (block
         [with_session (\<lambda>s.
            send (Post ''/upload'' [(''file'', file)]
                    (upload_data cw_id analysis_type include_suggestions s))),
          (case upload_reply of
             Throws e \<Rightarrow> raise e
           | Response code txt dec \<Rightarrow>
               if code = 200 then
                 (case dec of
                    None \<Rightarrow> raise JSONDecodeError
                  | Some result \<Rightarrow>
                      stage1_success cw_id file result submit_content content_text)
               else emit (Error [Txt ''Analysis failed: '', Str txt]))])
       upload_handler"

definition analyze_document ::
  "pystr \<Rightarrow> bool \<Rightarrow> json \<Rightarrow> upfile \<Rightarrow> json reply \<Rightarrow> bool \<Rightarrow> pystr \<Rightarrow> step" where
  "analyze_document analysis_type include_suggestions cw_id file upload_reply
       submit_content content_text =
     block
       [if_then (\<not> truthy cw_id)
          (block
            [emit (Error [Txt ''Please select a content writer to receive the Stage 1 report'']),
             return]),
        post_upload analysis_type include_suggestions cw_id file upload_reply
          submit_content content_text]"

subsection \<open>The tab\<close>

record upload_widgets =
  selected_project :: pystr
  custom_name :: pystr
  selected_content_writer :: pystr
  file_uploader :: "upfile option"
  analyze_button :: bool
  bm_content_text :: pystr
  bm_submit_content :: bool

text \<open>
  A button is true only in the run that its own click starts. The form of lines 447 to 462
  is shown inside the branch of the Analyze button, so a run that Streamlit starts never has
  both buttons true: the run started by the form's button has the Analyze button false.
\<close>

definition streamlit_run :: "upload_widgets \<Rightarrow> bool" where
  "streamlit_run wd = (\<not> (analyze_button wd \<and> bm_submit_content wd))"

record upload_backend =
  be_projects :: "project listing reply"
  be_users :: "user listing reply"
  be_upload :: "json reply"

definition upload_and_analyze_tab ::
  "pystr \<Rightarrow> bool \<Rightarrow> upload_widgets \<Rightarrow> upload_backend \<Rightarrow> step" where
  "upload_and_analyze_tab analysis_type include_suggestions wd be =
     body (block
       [emit (Header ''Upload & Analyze Project Brief''),
        emit (Subheader ''Upload Document''),
        emit (Subheader ''Select Project''),
        emit (Info [Txt (''Choose which project this ad campaign belongs to. The system will '' @
                         ''automatically retrieve the project's Basecamp message board and '' @
                         ''document vault.'')]),
        select_project (be_projects be) (selected_project wd) (custom_name wd),
        emit (Subheader ''Select Content Writer''),
        emit (Info [Txt (''Select the content writer who will receive the Stage 1 report '' @
                         ''and notification.'')]),
        send (Get ''/users''),
        emits (snd (select_content_writer (be_users be) (selected_content_writer wd))),
        (case file_uploader wd of
           None \<Rightarrow> skip
         | Some file \<Rightarrow>
             block
               [emit (Success [Txt ''File uploaded: '', Str (file_name file)]),
                emit (Subheader ''Analysis Options''),
                emit (Write [Txt ''**Analysis Type:** '', Str analysis_type]),
                emit (Write [Txt ''**Include Suggestions:** '', Val (JBool include_suggestions)]),
                if_then (analyze_button wd)
                  (analyze_document analysis_type include_suggestions
                     (fst (select_content_writer (be_users be) (selected_content_writer wd)))
                     file (be_upload be) (bm_submit_content wd) (bm_content_text wd))])])"

section \<open>Stage 2: \<^verbatim>\<open>content_writer_submit_tab\<close>\<close>

subsection \<open>Designer selection (lines 688 to 723)\<close>

definition resolve_designer :: "user list \<Rightarrow> pystr \<Rightarrow> json \<times> ui list" where
  "resolve_designer designers selected_designer =
     (if selected_designer \<noteq> lit ''None'' then
        (case next_where (\<lambda>u. name u = split_first selected_designer) designers of
           None \<Rightarrow> (JNull, [])
         | Some selected_user \<Rightarrow>
             (basecamp_user_id selected_user,
              [Success [Txt ''Selected: '', Str (name selected_user)]]))
      else (JNull, []))"

definition select_designer :: "user listing reply \<Rightarrow> pystr \<Rightarrow> json \<times> ui list" where
  "select_designer users_reply selected_designer =
     (case users_reply of
        Throws e \<Rightarrow> (JNull, [Error [Txt ''Error connecting to backend: '', ExnText e]])
      | Response code txt dec \<Rightarrow>
          if code = 200 then
            (case dec of
               None \<Rightarrow>
                 (JNull, [Error [Txt ''Error connecting to backend: '', ExnText JSONDecodeError]])
             | Some users_data \<Rightarrow>
                 if success users_data \<and> items users_data \<noteq> [] then
                   (let designers =
                          filter (\<lambda>u. truthy (basecamp_user_id u)) (items users_data)
                    in if designers \<noteq> [] then resolve_designer designers selected_designer
                       else (JNull, [Warning [Txt ''No designers available'']]))
                 else (JNull, [Error [Txt ''Failed to fetch designers'']]))
          else (JNull, [Error [Txt ''Backend error: '', Code code]]))"

subsection \<open>The submit button (lines 727 to 790)\<close>

definition content_data :: "json \<Rightarrow> json \<Rightarrow> pystr \<Rightarrow> upfile option \<Rightarrow> (string \<times> json) list" where
  "content_data brief_id designer_id content_text content_file =
     [(''project_brief_id'', brief_id),
      (''designer_id'', designer_id),
      (''content_writer_id'', JNull)]
     @ (if strip content_text \<noteq> [] then [(''content_text'', JStr content_text)] else [])
     @ (case content_file of None \<Rightarrow> [] | Some f \<Rightarrow> [(''has_file'', JBool True)])"

definition content_files :: "upfile option \<Rightarrow> (string \<times> upfile) list" where
  "content_files content_file =
     (case content_file of None \<Rightarrow> [] | Some f \<Rightarrow> [(''content_file'', f)])"

definition stage2_success :: "json \<Rightarrow> step" where
  "stage2_success content_result =
     block
       [emit (Success [Txt (''Content submitted successfully! Designer report generated and '' @
                            ''uploaded to Basecamp.'')]),
        compute (get content_result ''basecamp_integration'') (\<lambda>designer_status.
          if_then (truthy designer_status)
            (block
              [compute (get designer_status ''designer_uploaded'') (\<lambda>u.
                 if_then (truthy u) (emit (Success [Txt ''Designer Report uploaded to Basecamp'']))),
               compute (get designer_status ''designer_notified'') (\<lambda>n.
                 if_then (truthy n) (emit (Success [Txt ''Designer notification sent''])))])),
        assign (\<lambda>s. s\<lparr>designer_results := Some content_result\<rparr>)]"

text \<open>The \<^verbatim>\<open>try\<close> statement of lines 738 to 790: the call and what follows it.\<close>

definition post_content ::
  "json \<Rightarrow> json \<Rightarrow> pystr \<Rightarrow> upfile option \<Rightarrow> json reply \<Rightarrow> step" where
  "post_content brief_id designer_id content_text content_file submit_reply =
     try_except
       (block
         [send (Post ''/submit-content'' (content_files content_file)
                  (content_data brief_id designer_id content_text content_file)),
          (case submit_reply of
             Throws e \<Rightarrow> raise e
           | Response code txt dec \<Rightarrow>
               if code = 200 then
                 (case dec of
                    None \<Rightarrow> raise JSONDecodeError
                  | Some content_result \<Rightarrow> stage2_success content_result)
               else emit (Error [Txt ''Content submission failed: '', Str txt]))])
       (\<lambda>e. emit (Error [Txt ''Error submitting content: '', ExnText e]))"

definition submit_content_clicked ::
  "json \<Rightarrow> json \<Rightarrow> pystr \<Rightarrow> upfile option \<Rightarrow> json reply \<Rightarrow> step" where
  "submit_content_clicked brief_id designer_id content_text content_file submit_reply =
     block
       [if_then (content_file = None \<and> strip content_text = [])
          (block
            [emit (Error [Txt ''Please either upload a content document or enter content text'']),
             return]),
        if_then (\<not> truthy designer_id)
          (block [emit (Error [Txt ''Please select a designer to receive the report'']), return]),
        post_content brief_id designer_id content_text content_file submit_reply]"

subsection \<open>The tab\<close>

record submit_widgets =
  content_file :: "upfile option"
  content_text :: pystr
  selected_designer :: pystr
  submit_content :: bool

record submit_backend =
  be_designers :: "user listing reply"
  be_submit :: "json reply"

definition content_writer_submit_tab :: "submit_widgets \<Rightarrow> submit_backend \<Rightarrow> step" where
  "content_writer_submit_tab wd be =
     body (block
       [emit (Header ''Submit Completed Content''),
        with_session (\<lambda>s. case analysis_results s of
           None \<Rightarrow>
             block
               [emit (Info [Txt (''No projects available. Please wait for a brand manager to '' @
                                 ''assign you a project.'')]),
                return]
         | Some results \<Rightarrow>
             compute (get_default results ''report_data'' (JObj [])) (\<lambda>rd.
               compute (get rd ''project_brief_id'') (\<lambda>brief_id.
                 block
                   [if_then (\<not> truthy brief_id)
                      (block
                        [emit (Error [Txt ''No project ID found. Please contact the brand manager.'']),
                         return]),
                    emit (Info [Txt ''**Project ID:** '', Val brief_id]),
                    emit (Subheader ''Submit Your Content''),
                    emit (Info [Txt ''Upload your completed content document (PDF, DOCX, or TXT)'']),
                    emit (Subheader ''Select Designer for Report''),
                    emit (Info [Txt (''Choose a designer who will receive the report based on '' @
                                     ''your content.'')]),
                    send (Get ''/users''),
                    emits (snd (select_designer (be_designers be) (selected_designer wd))),
                    if_then (submit_content wd)
                      (submit_content_clicked brief_id
                         (fst (select_designer (be_designers be) (selected_designer wd)))
                         (content_text wd) (content_file wd) (be_submit be))])))])"

section \<open>\<^verbatim>\<open>content_writer_history_tab\<close> (lines 792 to 832)\<close>

text \<open>\<open>now\<close> is the formatted clock reading that the tab prints.\<close>

definition content_writer_history_tab :: "pystr \<Rightarrow> step" where
  "content_writer_history_tab now =
     body (block
       [emit (Header ''Content History''),
        with_session (\<lambda>s. case designer_results s of
           None \<Rightarrow>
             block
               [emit (Info [Txt (''No completed content submissions yet. Submit your content '' @
                                 ''to see history here.'')]),
                return]
         | Some results \<Rightarrow>
             block
               [emit (Subheader ''Latest Submission''),
                compute (get_default results ''project_brief_id'' (JStr (lit ''Unknown''))) (\<lambda>i.
                  emit (Info [Txt ''**Project ID:** '', Val i])),
                compute (get_default results ''processing_time'' (JNum 0)) (\<lambda>t.
                  compute (format_2f t) (\<lambda>v.
                    emit (Info [Txt ''**Processing Time:** '', Fixed2 v, Txt '' seconds'']))),
                compute (get_default results ''stage'' (JStr (lit ''Unknown''))) (\<lambda>st.
                  emit (Info [Txt ''**Status:** '', Val st])),
                emit (Info [Txt ''**Generated:** '', Str now]),
                compute (get_default results ''report_data'' (JObj [])) (\<lambda>rd.
                  compute (get rd ''designer_report'') (\<lambda>r.
                    if_then (truthy r)
                      (block [emit (Subheader ''Designer Report Generated''),
                              emit (Write [Val r])]))),
                compute (get results ''basecamp_integration'') (\<lambda>basecamp_status.
                  if_then (truthy basecamp_status)
                    (block
                      [emit (Subheader ''Basecamp Integration Status''),
                       compute (get basecamp_status ''designer_uploaded'') (\<lambda>u.
                         if_then (truthy u)
                           (emit (Success [Txt ''Designer Report uploaded to Basecamp'']))),
                       compute (get basecamp_status ''designer_notified'') (\<lambda>n.
                         if_then (truthy n)
                           (emit (Success [Txt ''Designer notification sent'']))),
                       compute (get basecamp_status ''errors'') (\<lambda>errs.
                         if_then (truthy errs)
                           (emit (Error [Txt ''Some errors occurred: '', Val errs])))])),
                emit (Info [Txt (''**Note:** Your content has been successfully processed and '' @
                                 ''the designer report has been generated and uploaded to '' @
                                 ''Basecamp.'')])])])"

section \<open>Notions used to state the properties\<close>

text \<open>A run that starts with an empty session, an empty page and nothing sent.\<close>

definition blank_world :: world where
  "blank_world = \<lparr>session = empty_session, page = [], requests = []\<rparr>"

text \<open>What a step sends and prints when it runs in \<open>w\<close>.\<close>

definition sent_by :: "step \<Rightarrow> world \<Rightarrow> request list" where
  "sent_by m w = drop (length (requests w)) (requests (snd (m w)))"

definition printed_by :: "step \<Rightarrow> world \<Rightarrow> ui list" where
  "printed_by m w = drop (length (page w)) (page (snd (m w)))"

text \<open>
  The project brief identifier as Stage 2 reads it (lines 651 to 656): there are no analysis
  results in the session (\<open>None\<close>), or the two \<^verbatim>\<open>.get\<close> calls on them raise or yield a
  value. The identifier is missing when there are no results or the value is not a true one.
\<close>

definition stored_brief_id :: "session_state \<Rightarrow> (exn + json) option" where
  "stored_brief_id s =
     (case analysis_results s of
        None \<Rightarrow> None
      | Some results \<Rightarrow>
          Some (case get_default results ''report_data'' (JObj []) of
                  Inl e \<Rightarrow> Inl e
                | Inr rd \<Rightarrow> get rd ''project_brief_id''))"

definition brief_id_missing :: "session_state \<Rightarrow> bool" where
  "brief_id_missing s =
     (case stored_brief_id s of
        None \<Rightarrow> True
      | Some (Inl e) \<Rightarrow> False
      | Some (Inr i) \<Rightarrow> \<not> truthy i)"

text \<open>The \<^verbatim>\<open>/upload\<close> call succeeded: status 200 and a body that decodes.\<close>

fun upload_succeeded :: "json reply \<Rightarrow> bool" where
  "upload_succeeded (Response code txt (Some result)) = (code = 200)"
| "upload_succeeded _ = False"

text \<open>
  Streamlit runs the script again after every interaction. A sequence of Stage-1 attempts is
  a sequence of runs of the tab, each with its own widget values and backend replies.
\<close>

record attempt =
  at_analysis_type :: pystr
  at_include_suggestions :: bool
  at_widgets :: upload_widgets
  at_backend :: upload_backend

fun attempts :: "attempt list \<Rightarrow> world \<Rightarrow> world" where
  "attempts [] w = w"
| "attempts (a # as) w =
     attempts as
       (snd (upload_and_analyze_tab (at_analysis_type a) (at_include_suggestions a)
               (at_widgets a) (at_backend a) w))"

text \<open>
  An attempt in which Analyze was pressed with a file and a content writer, and to which
  \<^verbatim>\<open>/upload\<close> answered with success.
\<close>

definition upload_accepted :: "attempt \<Rightarrow> bool" where
  "upload_accepted a =
     (analyze_button (at_widgets a) \<and> file_uploader (at_widgets a) \<noteq> None
      \<and> truthy (fst (select_content_writer (be_users (at_backend a))
                         (selected_content_writer (at_widgets a))))
      \<and> upload_succeeded (be_upload (at_backend a)))"

text \<open>The session without the two keys that project selection rewrites on every run.\<close>

definition workflow_fields :: "session_state \<Rightarrow> session_state" where
  "workflow_fields s = s\<lparr>selected_project_id := None, selected_project_name := None\<rparr>"

fun is_success :: "ui \<Rightarrow> bool" where
  "is_success (Success fs) = True"
| "is_success _ = False"

text \<open>A printed line that is neither of the two validation errors of the Stage-2 handler.\<close>

fun not_validation_error :: "ui \<Rightarrow> bool" where
  "not_validation_error (Error fs) =
     (fs \<noteq> [Txt ''Please either upload a content document or enter content text'']
      \<and> fs \<noteq> [Txt ''Please select a designer to receive the report''])"
| "not_validation_error _ = True"

fun null_writer :: "request \<Rightarrow> bool" where
  "null_writer (Get path) = True"
| "null_writer (Post path files data) =
     (path = ''/submit-content'' \<longrightarrow> map_of data ''content_writer_id'' = Some JNull)"

fun is_get :: "request \<Rightarrow> bool" where
  "is_get (Get path) = True"
| "is_get (Post path files data) = False"

text \<open>
  \<open>keeps R m\<close>: whatever the state before, the state after \<open>m\<close> is related to it by
  \<open>R\<close>. For a reflexive and transitive \<open>R\<close> the property passes through every way of
  putting steps together, so a frame property of a whole tab follows from its statements.
\<close>

definition keeps :: "(world \<Rightarrow> world \<Rightarrow> bool) \<Rightarrow> step \<Rightarrow> bool" where
  "keeps R m = (\<forall>w. R w (snd (m w)))"

definition sends :: "(request \<Rightarrow> bool) \<Rightarrow> world \<Rightarrow> world \<Rightarrow> bool" where
  "sends P w w' = (\<exists>rs. requests w' = requests w @ rs \<and> list_all P rs)"

definition prints :: "(ui \<Rightarrow> bool) \<Rightarrow> world \<Rightarrow> world \<Rightarrow> bool" where
  "prints Q w w' = (\<exists>us. page w' = page w @ us \<and> list_all Q us)"

definition same_requests :: "world \<Rightarrow> world \<Rightarrow> bool" where
  "same_requests w w' = (requests w' = requests w)"

definition same_workflow :: "world \<Rightarrow> world \<Rightarrow> bool" where
  "same_workflow w w' = (workflow_fields (session w') = workflow_fields (session w))"

text \<open>A step that only prints: its outcome and its lines do not depend on the state.\<close>

definition printer :: "step \<Rightarrow> bool" where
  "printer m = (\<exists>s us. \<forall>w. m w = (s, w\<lparr>page := page w @ us\<rparr>))"

section \<open>Reasoning about steps\<close>

lemmas step_defs = skip_def return_def raise_def st_rerun_def emit_def emits_def assign_def
  send_def if_then_def try_except_def body_def compute_def with_session_def

lemmas run_defs = step_defs blank_world_def empty_session_def sent_by_def printed_by_def
  get_def strip_def isspace_def lit_def

lemma block_skip: "block (skip # ms) w = block ms w"
  by (simp add: skip_def)

lemma block_single: "block [m] w = m w"
  by (cases "m w") (auto split: status.split)

lemma keepsI: "(\<And>w. R w (snd (m w))) \<Longrightarrow> keeps R m"
  by (simp add: keeps_def)

lemma keepsD: "keeps R m \<Longrightarrow> R w (snd (m w))"
  by (simp add: keeps_def)

lemma keeps_skip: "reflp R \<Longrightarrow> keeps R skip"
  by (simp add: keeps_def skip_def reflpD)

lemma keeps_return: "reflp R \<Longrightarrow> keeps R return"
  by (simp add: keeps_def return_def reflpD)

lemma keeps_raise: "reflp R \<Longrightarrow> keeps R (raise e)"
  by (simp add: keeps_def raise_def reflpD)

lemma keeps_st_rerun: "reflp R \<Longrightarrow> keeps R st_rerun"
  by (simp add: keeps_def st_rerun_def reflpD)

lemma keeps_block:
  assumes "reflp R" and "transp R" and "list_all (keeps R) ms"
  shows "keeps R (block ms)"
  using assms(3)
proof (induction ms)
  case Nil
  show ?case using assms(1) by (simp add: keeps_def reflpD)
next
  case (Cons m ms)
  then have m: "keeps R m" and ms: "keeps R (block ms)" by simp_all
  show ?case
  proof (rule keepsI)
    fix w
    obtain s w' where mw: "m w = (s, w')" by (cases "m w")
    have 1: "R w w'" using keepsD [OF m, of w] mw by simp
    show "R w (snd (block (m # ms) w))"
    proof (cases s)
      case Normal
      have "R w' (snd (block ms w'))" using keepsD [OF ms] .
      with 1 have "R w (snd (block ms w'))" using assms(2) by (blast dest: transpD)
      then show ?thesis using mw Normal by simp
    qed (use mw 1 in simp_all)
  qed
qed

lemma keeps_if_then: "reflp R \<Longrightarrow> keeps R m \<Longrightarrow> keeps R (if_then c m)"
  by (simp add: if_then_def keeps_skip)

lemma keeps_compute: "reflp R \<Longrightarrow> (\<And>v. keeps R (k v)) \<Longrightarrow> keeps R (compute x k)"
  by (cases x) (simp_all add: compute_def keeps_raise)

lemma keeps_try_except:
  assumes "transp R" and "keeps R m" and "\<And>e. keeps R (h e)"
  shows "keeps R (try_except m h)"
proof (rule keepsI)
  fix w
  obtain s w' where mw: "m w = (s, w')" by (cases "m w")
  have 1: "R w w'" using keepsD [OF assms(2), of w] mw by simp
  show "R w (snd (try_except m h w))"
  proof (cases s)
    case (Raised e)
    have "R w' (snd (h e w'))" using keepsD [OF assms(3)] .
    with 1 have "R w (snd (h e w'))" using assms(1) by (blast dest: transpD)
    then show ?thesis using mw Raised by (simp add: try_except_def)
  qed (use mw 1 in \<open>simp_all add: try_except_def\<close>)
qed

lemma keeps_body: "keeps R m \<Longrightarrow> keeps R (body m)"
  unfolding keeps_def body_def
  by (auto split: prod.splits status.splits) (metis snd_conv)+

lemma keeps_with_session: "(\<And>s. keeps R (f s)) \<Longrightarrow> keeps R (with_session f)"
  by (simp add: keeps_def with_session_def)

lemmas keeps_intros = keeps_body keeps_block keeps_if_then keeps_compute keeps_try_except
  keeps_with_session keeps_skip keeps_return keeps_raise keeps_st_rerun

lemma sends_order [simp]: "reflp (sends P)" "transp (sends P)"
  by (auto simp: sends_def reflp_def transp_def)

lemma prints_order [simp]: "reflp (prints Q)" "transp (prints Q)"
  by (auto simp: prints_def reflp_def transp_def)

lemma same_requests_order [simp]: "reflp same_requests" "transp same_requests"
  by (auto simp: same_requests_def reflp_def transp_def)

lemma same_workflow_order [simp]: "reflp same_workflow" "transp same_workflow"
  by (auto simp: same_workflow_def reflp_def transp_def)

lemma sends_prim:
  "keeps (sends P) (emit u)" "keeps (sends P) (emits us)" "keeps (sends P) (assign f)"
  "P r \<Longrightarrow> keeps (sends P) (send r)"
  by (simp_all add: keeps_def sends_def emit_def emits_def assign_def send_def)

lemma prints_prim:
  "Q u \<Longrightarrow> keeps (prints Q) (emit u)" "list_all Q us \<Longrightarrow> keeps (prints Q) (emits us)"
  "keeps (prints Q) (assign f)" "keeps (prints Q) (send r)"
  by (simp_all add: keeps_def prints_def emit_def emits_def assign_def send_def)

lemma same_requests_prim:
  "keeps same_requests (emit u)" "keeps same_requests (emits us)" "keeps same_requests (assign f)"
  by (simp_all add: keeps_def same_requests_def emit_def emits_def assign_def)

lemma same_workflow_prim:
  "keeps same_workflow (emit u)" "keeps same_workflow (emits us)" "keeps same_workflow (send r)"
  by (simp_all add: keeps_def same_workflow_def emit_def emits_def send_def)

lemma sent_by_sends: "keeps (sends P) m \<Longrightarrow> list_all P (sent_by m w)"
  by (auto simp: keeps_def sends_def sent_by_def dest!: spec [of _ w])

lemma printed_by_prints: "keeps (prints Q) m \<Longrightarrow> list_all Q (printed_by m w)"
  by (auto simp: keeps_def prints_def printed_by_def dest!: spec [of _ w])

lemma printerI: "(\<And>w. m w = (s, w\<lparr>page := page w @ us\<rparr>)) \<Longrightarrow> printer m"
  unfolding printer_def by blast

lemma printer_emit: "printer (emit u)"
  by (rule printerI [of _ Normal "[u]"]) (simp add: emit_def)

lemma printer_skip: "printer skip"
  by (rule printerI [of _ Normal "[]"]) (simp add: skip_def)

lemma printer_raise: "printer (raise e)"
  by (rule printerI [of _ "Raised e" "[]"]) (simp add: raise_def)

lemma printer_return: "printer return"
  by (rule printerI [of _ Returned "[]"]) (simp add: return_def)

lemma printer_block: "list_all printer ms \<Longrightarrow> printer (block ms)"
proof (induction ms)
  case Nil
  show ?case by (rule printerI [of _ Normal "[]"]) simp
next
  case (Cons m ms)
  then obtain s us where m: "\<And>w. m w = (s, w\<lparr>page := page w @ us\<rparr>)"
    unfolding printer_def by auto
  from Cons obtain t vs where ms: "\<And>w. block ms w = (t, w\<lparr>page := page w @ vs\<rparr>)"
    unfolding printer_def by auto
  show ?case
  proof (cases s)
    case Normal
    show ?thesis
      by (rule printerI [of _ t "us @ vs"]) (simp add: m ms Normal)
  qed (rule printerI [of _ s us], simp add: m)+
qed

lemma printer_if_then: "printer m \<Longrightarrow> printer (if_then c m)"
  by (simp add: if_then_def printer_skip)

lemma printer_compute: "(\<And>v. printer (k v)) \<Longrightarrow> printer (compute x k)"
  by (cases x) (simp_all add: compute_def printer_raise)

lemma printer_body: "printer m \<Longrightarrow> printer (body m)"
proof -
  assume "printer m"
  then obtain s us where m: "\<And>w. m w = (s, w\<lparr>page := page w @ us\<rparr>)"
    unfolding printer_def by auto
  show ?thesis
  proof (cases s)
    case Returned
    show ?thesis by (rule printerI [of _ Normal us]) (simp add: body_def m Returned)
  qed (rule printerI [of _ s us], simp add: body_def m)+
qed

lemma printer_show_analysis_summary: "printer (show_analysis_summary results)"
  unfolding show_analysis_summary_def
  by (intro printer_body printer_block printer_compute printer_if_then)
     (simp add: printer_emit printer_compute printer_if_then)

section \<open>Facts about the tabs\<close>

lemma stage2_success_sends: "keeps (sends P) (stage2_success r)"
  unfolding stage2_success_def
  by (intro keeps_intros) (simp_all add: sends_prim keeps_intros)

lemma submit_clicked_null_writer:
  "keeps (sends null_writer) (submit_content_clicked b d t f reply)"
  unfolding submit_content_clicked_def post_content_def
  by (intro keeps_intros)
     (simp_all add: sends_prim keeps_intros stage2_success_sends content_data_def
        split: reply.split option.split)

lemma submit_tab_null_writer: "keeps (sends null_writer) (content_writer_submit_tab wd be)"
  unfolding content_writer_submit_tab_def
  by (intro keeps_intros)
     (simp_all add: sends_prim keeps_intros submit_clicked_null_writer split: option.split)

lemma select_project_sends_get: "keeps (sends is_get) (select_project reply sel custom)"
  unfolding select_project_def clear_selected_project_def
  by (intro keeps_intros)
     (simp_all add: sends_prim keeps_intros split: reply.split option.split)

lemma analyze_without_writer:
  "\<not> truthy cw_id \<Longrightarrow>
   analyze_document atype inc cw_id file reply sc ct w =
     (Returned,
      w\<lparr>page := page w @
         [Error [Txt ''Please select a content writer to receive the Stage 1 report'']]\<rparr>)"
  by (simp add: analyze_document_def step_defs)

lemma upload_tab_without_writer:
  assumes "\<not> truthy (fst (select_content_writer (be_users be) (selected_content_writer wd)))"
  shows "keeps (sends is_get) (upload_and_analyze_tab atype inc wd be)"
proof -
  have "keeps (sends is_get)
      (analyze_document atype inc
         (fst (select_content_writer (be_users be) (selected_content_writer wd)))
         f reply sc ct)" for f reply sc ct
    by (rule keepsI) (simp add: analyze_without_writer [OF assms] sends_def)
  then show ?thesis
    unfolding upload_and_analyze_tab_def
    by (intro keeps_intros)
       (simp_all add: sends_prim keeps_intros select_project_sends_get split: option.split)
qed

lemma submit_passes_validation:
  "cfile \<noteq> None \<or> strip txt \<noteq> [] \<Longrightarrow> truthy designer_id \<Longrightarrow>
   submit_content_clicked brief_id designer_id txt cfile reply w =
     post_content brief_id designer_id txt cfile reply w"
  by (auto simp: submit_content_clicked_def if_then_def block_skip block_single
      simp del: block.simps)

lemma stage2_success_same_requests: "keeps same_requests (stage2_success r)"
  unfolding stage2_success_def
  by (intro keeps_intros) (simp_all add: same_requests_prim keeps_intros)

lemma post_content_sends:
  "sent_by (post_content brief_id designer_id txt cfile reply) w =
     [Post ''/submit-content'' (content_files cfile)
        (content_data brief_id designer_id txt cfile)]"
proof -
  let ?r = "Post ''/submit-content'' (content_files cfile)
              (content_data brief_id designer_id txt cfile)"
  let ?rest = "case reply of
                 Throws e \<Rightarrow> raise e
               | Response code btxt dec \<Rightarrow>
                   if code = 200 then
                     (case dec of
                        None \<Rightarrow> raise JSONDecodeError
                      | Some content_result \<Rightarrow> stage2_success content_result)
                   else emit (Error [Txt ''Content submission failed: '', Str btxt])"
  let ?h = "\<lambda>e. emit (Error [Txt ''Error submitting content: '', ExnText e])"
  have split: "post_content brief_id designer_id txt cfile reply w =
      try_except (block [?rest]) ?h (w\<lparr>requests := requests w @ [?r]\<rparr>)"
    by (simp add: post_content_def try_except_def send_def)
  have "keeps same_requests (try_except (block [?rest]) ?h)"
    by (intro keeps_intros)
       (simp_all add: same_requests_prim keeps_intros stage2_success_same_requests
          split: reply.split option.split)
  then have "requests (snd (try_except (block [?rest]) ?h (w\<lparr>requests := requests w @ [?r]\<rparr>)))
      = requests w @ [?r]"
    by (simp add: keeps_def same_requests_def)
  then show ?thesis by (simp add: sent_by_def split)
qed

lemma stage2_success_prints: "keeps (prints is_success) (stage2_success r)"
  unfolding stage2_success_def
  by (intro keeps_intros) (simp_all add: prints_prim keeps_intros)

lemma post_content_prints: "keeps (prints not_validation_error) (post_content b d t f reply)"
proof -
  have "keeps (prints not_validation_error) (stage2_success r)" for r
    unfolding stage2_success_def
    by (intro keeps_intros) (simp_all add: prints_prim keeps_intros)
  then show ?thesis
    unfolding post_content_def
    by (intro keeps_intros) (simp_all add: prints_prim keeps_intros split: reply.split option.split)
qed

lemma get_object: "get d k = Inr v \<Longrightarrow> \<exists>kvs. d = JObj kvs"
  by (cases d) (simp_all add: get_def)

lemma get_truthy_nonempty: "get (JObj kvs) k = Inr v \<Longrightarrow> truthy v \<Longrightarrow> truthy (JObj kvs)"
  by (cases kvs) (auto simp: get_def)

lemma history_shows_errors:
  assumes "designer_results (session w) = Some r"
    and "get r ''basecamp_integration'' = Inr bi" and "get bi ''errors'' = Inr errs"
    and "truthy errs"
    and "get_default r ''processing_time'' (JNum 0) = Inr t" and "format_2f t = Inr v"
    and "get_default r ''report_data'' (JObj []) = Inr rd" and "get rd ''designer_report'' = Inr dr"
  shows "Error [Txt ''Some errors occurred: '', Val errs]
           \<in> set (printed_by (content_writer_history_tab now) w)"
proof -
  obtain kvs where r: "r = JObj kvs" using get_object [OF assms(2)] by blast
  obtain bkvs where bi: "bi = JObj bkvs" using get_object [OF assms(3)] by blast
  have tb: "truthy bi" using get_truthy_nonempty assms(3,4) bi by blast
  obtain u where u: "get bi ''designer_uploaded'' = Inr u" by (simp add: bi get_def)
  obtain n where n: "get bi ''designer_notified'' = Inr n" by (simp add: bi get_def)
  obtain i where i: "get_default r ''project_brief_id'' (JStr (lit ''Unknown'')) = Inr i"
    by (simp add: r)
  obtain st where st: "get_default r ''stage'' (JStr (lit ''Unknown'')) = Inr st"
    by (simp add: r)
  show ?thesis
    by (simp add: content_writer_history_tab_def step_defs printed_by_def assms tb u n i st)
qed

lemma split_first_label: "split_first n = n \<Longrightarrow> split_first (n @ lit '' ('' @ rest) = n"
proof (induction n)
  case Nil
  show ?case by (simp add: lit_def)
next
  case (Cons c cs)
  from Cons.prems have no: "take 2 (c # cs) \<noteq> lit '' (''" and cs: "split_first cs = cs"
    by (auto split: if_splits)
  have "take 2 (c # cs @ lit '' ('' @ rest) \<noteq> lit '' (''"
    using no by (cases cs) (auto simp: lit_def)
  then show ?case using Cons.IH [OF cs] by simp
qed


lemma user_label_not_None: "user_label u \<noteq> lit ''None''"
proof
  assume "user_label u = lit ''None''"
  then have "last (user_label u) = last (lit ''None'')" by simp
  then show False by (simp add: user_label_def lit_def)
qed

lemma user_label_cut: "split_first (name u) = name u \<Longrightarrow> split_first (user_label u) = name u"
  using split_first_label [of "name u" "email u @ lit '')''"] by (simp add: user_label_def)

lemma analyze_with_writer:
  "truthy cw_id \<Longrightarrow>
   analyze_document atype inc cw_id doc reply sc ct w =
     post_upload atype inc cw_id doc reply sc ct w"
  by (simp add: analyze_document_def if_then_def block_skip block_single del: block.simps)

lemma post_upload_failed_response:
  "code \<noteq> 200 \<Longrightarrow>
   post_upload atype inc cw_id doc (Response code btxt dec) sc ct w =
     (Normal,
      w\<lparr>requests := requests w @
           [Post ''/upload'' [(''file'', doc)] (upload_data cw_id atype inc (session w))],
        page := page w @ [Error [Txt ''Analysis failed: '', Str btxt]]\<rparr>)"
  by (simp add: post_upload_def step_defs)

lemma post_upload_throws:
  "post_upload atype inc cw_id doc (Throws e) sc ct w =
     (Normal,
      w\<lparr>requests := requests w @
           [Post ''/upload'' [(''file'', doc)] (upload_data cw_id atype inc (session w))],
        page := page w @ [upload_error e]\<rparr>)"
  by (simp add: post_upload_def upload_handler_def step_defs)

lemma post_upload_undecodable:
  "post_upload atype inc cw_id doc (Response 200 btxt None) sc ct w =
     (Normal,
      w\<lparr>requests := requests w @
           [Post ''/upload'' [(''file'', doc)] (upload_data cw_id atype inc (session w))],
        page := page w @ [upload_error JSONDecodeError]\<rparr>)"
  by (simp add: post_upload_def upload_handler_def step_defs)

lemma post_upload_failed_keeps:
  "\<not> upload_succeeded reply \<Longrightarrow> keeps same_workflow (post_upload atype inc cw_id doc reply sc ct)"
proof (rule keepsI, cases reply)
  fix w e
  assume "reply = Throws e"
  then show "same_workflow w (snd (post_upload atype inc cw_id doc reply sc ct w))"
    by (simp add: post_upload_throws same_workflow_def)
next
  fix w code btxt dec
  assume no: "\<not> upload_succeeded reply" and r: "reply = Response code btxt dec"
  show "same_workflow w (snd (post_upload atype inc cw_id doc reply sc ct w))"
  proof (cases "code = 200")
    case True
    then have "dec = None" using no r by (cases dec) simp_all
    then show ?thesis using True r by (simp add: post_upload_undecodable same_workflow_def)
  next
    case False
    then show ?thesis using r by (simp add: post_upload_failed_response same_workflow_def)
  qed
qed

lemma analyze_failed_keeps:
  assumes "\<not> (truthy cw_id \<and> upload_succeeded reply)"
  shows "keeps same_workflow (analyze_document atype inc cw_id doc reply sc ct)"
proof (cases "truthy cw_id")
  case True
  then have "\<not> upload_succeeded reply" using assms by simp
  then show ?thesis
    using keepsD [OF post_upload_failed_keeps]
    by (intro keepsI) (simp add: analyze_with_writer [OF True])
next
  case False
  show ?thesis
    by (rule keepsI) (simp add: analyze_without_writer [OF False] same_workflow_def)
qed

lemma select_project_keeps: "keeps same_workflow (select_project reply sel custom)"
proof -
  have a: "keeps same_workflow
      (assign (\<lambda>s. s\<lparr>selected_project_id := x, selected_project_name := y\<rparr>))" for x y
    by (simp add: keeps_def same_workflow_def workflow_fields_def assign_def)
  show ?thesis
    unfolding select_project_def clear_selected_project_def
    by (intro keeps_intros)
       (simp_all add: same_workflow_prim a keeps_intros split: reply.split option.split)
qed

lemma tab_not_accepted_keeps:
  assumes "\<not> upload_accepted a"
  shows "keeps same_workflow
     (upload_and_analyze_tab (at_analysis_type a) (at_include_suggestions a)
        (at_widgets a) (at_backend a))"
proof (cases "file_uploader (at_widgets a)")
  case None
  then show ?thesis
    unfolding upload_and_analyze_tab_def
    by (intro keeps_intros)
       (simp_all add: same_workflow_prim select_project_keeps keeps_intros)
next
  case (Some f)
  have "keeps same_workflow
     (if_then (analyze_button (at_widgets a))
        (analyze_document (at_analysis_type a) (at_include_suggestions a)
           (fst (select_content_writer (be_users (at_backend a))
                   (selected_content_writer (at_widgets a))))
           f (be_upload (at_backend a)) (bm_submit_content (at_widgets a))
           (bm_content_text (at_widgets a))))"
  proof (cases "analyze_button (at_widgets a)")
    case True
    then have "\<not> (truthy (fst (select_content_writer (be_users (at_backend a))
                   (selected_content_writer (at_widgets a))))
                \<and> upload_succeeded (be_upload (at_backend a)))"
      using assms Some by (simp add: upload_accepted_def)
    then show ?thesis by (intro keeps_if_then analyze_failed_keeps) simp_all
  next
    case False
    then show ?thesis by (simp add: if_then_def keeps_skip)
  qed
  then show ?thesis
    unfolding upload_and_analyze_tab_def using Some
    by (intro keeps_intros)
       (simp_all add: same_workflow_prim select_project_keeps keeps_intros)
qed

lemma attempts_not_accepted:
  "list_all (\<lambda>a. \<not> upload_accepted a) as \<Longrightarrow>
   workflow_fields (session (attempts as w)) = workflow_fields (session w)"
proof (induction as arbitrary: w)
  case Nil
  show ?case by simp
next
  case (Cons a as)
  then have a: "\<not> upload_accepted a" and as: "list_all (\<lambda>a. \<not> upload_accepted a) as"
    by simp_all
  have "same_workflow w
      (snd (upload_and_analyze_tab (at_analysis_type a) (at_include_suggestions a)
              (at_widgets a) (at_backend a) w))"
    by (rule keepsD [OF tab_not_accepted_keeps [OF a]])
  then show ?case using Cons.IH [OF as] by (simp add: same_workflow_def)
qed

section \<open>Stage 1 completes only after a successful upload\<close>

text \<open>
  C1 as the specification states it has the surfaced error carry the status. The error
  printed for a failing response holds the body text and no status code: a 500 and a 503
  with the same body leave the same page, session and request log.
\<close>

theorem upload_error_without_status_counterexample:
  "analyze_document (lit ''basic'') True (JNum 7) \<lparr>file_name = lit ''brief.pdf'', file_bytes = ''abc''\<rparr>
     (Response 500 (lit ''boom'') None) False [] blank_world
   = (Normal,
      \<lparr>session = empty_session,
       page = [Error [Txt ''Analysis failed: '', Str (lit ''boom'')]],
       requests =
         [Post ''/upload'' [(''file'', \<lparr>file_name = lit ''brief.pdf'', file_bytes = ''abc''\<rparr>)]
            [(''content_writer_id'', JNum 7), (''analysis_type'', JStr (lit ''basic'')),
             (''include_suggestions'', JBool True), (''project_id'', JNull),
             (''project_name'', JNull)]]\<rparr>)
   \<and> analyze_document (lit ''basic'') True (JNum 7) \<lparr>file_name = lit ''brief.pdf'', file_bytes = ''abc''\<rparr>
       (Response 503 (lit ''boom'') None) False [] blank_world
     = analyze_document (lit ''basic'') True (JNum 7) \<lparr>file_name = lit ''brief.pdf'', file_bytes = ''abc''\<rparr>
       (Response 500 (lit ''boom'') None) False [] blank_world"
  by (simp add: analyze_document_def post_upload_def upload_data_def session_get_def run_defs)

text \<open>
  C1, as the code has it. Over any sequence of runs of the Upload tab in which no attempt
  was accepted by \<^verbatim>\<open>/upload\<close> (status 200 with a body that decodes), the workflow
  fields of the session, the analysis results among them, are what they were at the start.
  A single attempt with a content writer selected that meets a status other than 200, an
  exception of the call, or a 200 whose body does not decode, leaves the session unchanged
  and prints one error: the body text of the failing response, or the message of the
  exception handler.
\<close>

theorem stage1_complete_only_after_success:
  "(list_all (\<lambda>a. \<not> upload_accepted a) runs \<longrightarrow>
      workflow_fields (session (attempts runs w)) = workflow_fields (session w)
      \<and> analysis_results (session (attempts runs w)) = analysis_results (session w))
   \<and> (truthy cw_id \<and> code \<noteq> 200 \<longrightarrow>
        analyze_document atype inc cw_id doc (Response code btxt dec) sc ct w =
          (Normal,
           w\<lparr>requests := requests w @
                [Post ''/upload'' [(''file'', doc)] (upload_data cw_id atype inc (session w))],
             page := page w @ [Error [Txt ''Analysis failed: '', Str btxt]]\<rparr>))
   \<and> (truthy cw_id \<longrightarrow>
        analyze_document atype inc cw_id doc (Throws e) sc ct w =
          (Normal,
           w\<lparr>requests := requests w @
                [Post ''/upload'' [(''file'', doc)] (upload_data cw_id atype inc (session w))],
             page := page w @ [upload_error e]\<rparr>)
        \<and> analyze_document atype inc cw_id doc (Response 200 btxt None) sc ct w =
          (Normal,
           w\<lparr>requests := requests w @
                [Post ''/upload'' [(''file'', doc)] (upload_data cw_id atype inc (session w))],
             page := page w @ [upload_error JSONDecodeError]\<rparr>))"
proof (intro conjI impI)
  assume na: "list_all (\<lambda>a. \<not> upload_accepted a) runs"
  show wf: "workflow_fields (session (attempts runs w)) = workflow_fields (session w)"
    by (rule attempts_not_accepted [OF na])
  have "analysis_results (workflow_fields (session (attempts runs w)))
      = analysis_results (workflow_fields (session w))"
    by (simp only: wf)
  then show "analysis_results (session (attempts runs w)) = analysis_results (session w)"
    by (simp add: workflow_fields_def)
qed (simp_all add: analyze_with_writer post_upload_failed_response post_upload_throws
       post_upload_undecodable)

theorem stage1_complete_only_after_success_witness:
  "list_all (\<lambda>a. \<not> upload_accepted a)
     [\<lparr>at_analysis_type = lit ''basic'', at_include_suggestions = True,
       at_widgets =
         \<lparr>selected_project = lit ''Other - Custom Project'', custom_name = lit ''Acme'',
          selected_content_writer = lit ''Jane (jane@x.com)'',
          file_uploader = Some \<lparr>file_name = lit ''brief.pdf'', file_bytes = ''abc''\<rparr>,
          analyze_button = True, bm_content_text = [], bm_submit_content = False\<rparr>,
       at_backend =
         \<lparr>be_projects = Throws ConnectionError,
          be_users = Response 200 []
            (Some \<lparr>success = True,
                   items = [\<lparr>basecamp_user_id = JNum 7, name = lit ''Jane'',
                             email = lit ''jane@x.com''\<rparr>]\<rparr>),
          be_upload = Response 500 (lit ''boom'') None\<rparr>\<rparr>]
   \<and> analysis_results (session (attempts
     [\<lparr>at_analysis_type = lit ''basic'', at_include_suggestions = True,
       at_widgets =
         \<lparr>selected_project = lit ''Other - Custom Project'', custom_name = lit ''Acme'',
          selected_content_writer = lit ''Jane (jane@x.com)'',
          file_uploader = Some \<lparr>file_name = lit ''brief.pdf'', file_bytes = ''abc''\<rparr>,
          analyze_button = True, bm_content_text = [], bm_submit_content = False\<rparr>,
       at_backend =
         \<lparr>be_projects = Throws ConnectionError,
          be_users = Response 200 []
            (Some \<lparr>success = True,
                   items = [\<lparr>basecamp_user_id = JNum 7, name = lit ''Jane'',
                             email = lit ''jane@x.com''\<rparr>]\<rparr>),
          be_upload = Response 500 (lit ''boom'') None\<rparr>\<rparr>] blank_world)) = None
   \<and> truthy (JNum 7) \<and> (500 :: nat) \<noteq> 200
   \<and> page (snd (analyze_document (lit ''basic'') True (JNum 7)
        \<lparr>file_name = lit ''brief.pdf'', file_bytes = ''abc''\<rparr> (Response 500 (lit ''boom'') None)
        False [] blank_world)) = [Error [Txt ''Analysis failed: '', Str (lit ''boom'')]]
   \<and> session (snd (analyze_document (lit ''basic'') True (JNum 7)
        \<lparr>file_name = lit ''brief.pdf'', file_bytes = ''abc''\<rparr> (Throws Timeout)
        False [] blank_world)) = empty_session
   \<and> page (snd (analyze_document (lit ''basic'') True (JNum 7)
        \<lparr>file_name = lit ''brief.pdf'', file_bytes = ''abc''\<rparr> (Throws Timeout)
        False [] blank_world))
       = [Error [Txt ''Analysis timed out. Please try again with a shorter document.'']]"
proof -
  let ?a = "\<lparr>at_analysis_type = lit ''basic'', at_include_suggestions = True,
       at_widgets =
         \<lparr>selected_project = lit ''Other - Custom Project'', custom_name = lit ''Acme'',
          selected_content_writer = lit ''Jane (jane@x.com)'',
          file_uploader = Some \<lparr>file_name = lit ''brief.pdf'', file_bytes = ''abc''\<rparr>,
          analyze_button = True, bm_content_text = [], bm_submit_content = False\<rparr>,
       at_backend =
         \<lparr>be_projects = Throws ConnectionError,
          be_users = Response 200 []
            (Some \<lparr>success = True,
                   items = [\<lparr>basecamp_user_id = JNum 7, name = lit ''Jane'',
                             email = lit ''jane@x.com''\<rparr>]\<rparr>),
          be_upload = Response 500 (lit ''boom'') None\<rparr>\<rparr>"
  have na: "list_all (\<lambda>a. \<not> upload_accepted a) [?a]"
    by (simp add: upload_accepted_def)
  show ?thesis
    using na
      stage1_complete_only_after_success [where runs = "[?a]" and w = blank_world
        and cw_id = "JNum 7" and code = 500 and atype = "lit ''basic''" and inc = True
        and doc = "\<lparr>file_name = lit ''brief.pdf'', file_bytes = ''abc''\<rparr>"
        and btxt = "lit ''boom''" and dec = None and sc = False and ct = "[]" and e = Timeout]
    by (simp add: blank_world_def empty_session_def)
qed

section \<open>Stage 2 without a project brief identifier\<close>

text \<open>
  A session in which no Stage-1 attempt was ever accepted holds no analysis results, so it
  holds no project brief identifier for Stage 2.
\<close>

lemma no_success_no_brief_id:
  assumes "list_all (\<lambda>a. \<not> upload_accepted a) runs" and "analysis_results (session w) = None"
  shows "brief_id_missing (session (attempts runs w))"
proof -
  have "analysis_results (workflow_fields (session (attempts runs w)))
      = analysis_results (workflow_fields (session w))"
    by (simp only: attempts_not_accepted [OF assms(1)])
  then have "analysis_results (session (attempts runs w)) = None"
    using assms(2) by (simp add: workflow_fields_def)
  then show ?thesis by (simp add: brief_id_missing_def stored_brief_id_def)
qed

text \<open>
  C2 as the specification states it speaks of the session's \<^verbatim>\<open>project_brief_id\<close>. That
  key is written at line 439 and read nowhere. One run of the Upload tab reaches a session in
  which it was never set while the stored results carry an identifier: \<^verbatim>\<open>/upload\<close>
  answers 200 with a processing time that is a string, the results are stored, the summary
  raises on the format, and the handler ends the attempt before line 439. In that session the
  Submit Content tab sends the content to \<^verbatim>\<open>/submit-content\<close>.
\<close>

theorem stage2_posts_without_session_key_counterexample:
  "project_brief_id (session (snd (upload_and_analyze_tab (lit ''basic'') True
      \<lparr>selected_project = lit ''Other - Custom Project'', custom_name = lit ''Acme'',
       selected_content_writer = lit ''Jane (jane@x.com)'',
       file_uploader = Some \<lparr>file_name = lit ''brief.pdf'', file_bytes = ''abc''\<rparr>,
       analyze_button = True, bm_content_text = [], bm_submit_content = False\<rparr>
      \<lparr>be_projects = Throws ConnectionError,
       be_users = Response 200 []
         (Some \<lparr>success = True,
                items = [\<lparr>basecamp_user_id = JNum 7, name = lit ''Jane'',
                          email = lit ''jane@x.com''\<rparr>]\<rparr>),
       be_upload = Response 200 []
         (Some (JObj [(lit ''processing_time'', JStr (lit ''3.2'')),
                      (lit ''report_data'',
                       JObj [(lit ''project_brief_id'', JStr (lit ''PB-123''))])]))\<rparr>
      blank_world))) = None
   \<and> sent_by (content_writer_submit_tab
        \<lparr>content_file = None, content_text = lit ''draft'',
         selected_designer = lit ''Dan (dan@x.com)'', submit_content = True\<rparr>
        \<lparr>be_designers = Response 200 []
           (Some \<lparr>success = True,
                  items = [\<lparr>basecamp_user_id = JNum 8, name = lit ''Dan'',
                            email = lit ''dan@x.com''\<rparr>]\<rparr>),
         be_submit = Response 200 [] (Some (JObj []))\<rparr>)
      (snd (upload_and_analyze_tab (lit ''basic'') True
        \<lparr>selected_project = lit ''Other - Custom Project'', custom_name = lit ''Acme'',
         selected_content_writer = lit ''Jane (jane@x.com)'',
         file_uploader = Some \<lparr>file_name = lit ''brief.pdf'', file_bytes = ''abc''\<rparr>,
         analyze_button = True, bm_content_text = [], bm_submit_content = False\<rparr>
        \<lparr>be_projects = Throws ConnectionError,
         be_users = Response 200 []
           (Some \<lparr>success = True,
                  items = [\<lparr>basecamp_user_id = JNum 7, name = lit ''Jane'',
                            email = lit ''jane@x.com''\<rparr>]\<rparr>),
         be_upload = Response 200 []
           (Some (JObj [(lit ''processing_time'', JStr (lit ''3.2'')),
                        (lit ''report_data'',
                         JObj [(lit ''project_brief_id'', JStr (lit ''PB-123''))])]))\<rparr>
        blank_world))
     = [Get ''/users'',
        Post ''/submit-content'' []
          [(''project_brief_id'', JStr (lit ''PB-123'')), (''designer_id'', JNum 8),
           (''content_writer_id'', JNull), (''content_text'', JStr (lit ''draft''))]]"
  by (simp add: upload_and_analyze_tab_def select_project_def clear_selected_project_def
      select_content_writer_def resolve_content_writer_def analyze_document_def post_upload_def
      upload_handler_def stage1_success_def show_analysis_summary_def upload_data_def
      session_get_def content_writer_submit_tab_def submit_content_clicked_def post_content_def
      stage2_success_def select_designer_def resolve_designer_def content_data_def
      content_files_def run_defs)

text \<open>
  C2, as the code has it. The identifier that gates Stage 2 is the one inside the stored
  analysis results (lines 655 to 658). When there are no stored results, or their
  \<^verbatim>\<open>report_data.project_brief_id\<close> is absent, \<^verbatim>\<open>None\<close> or empty, the Submit
  Content tab is rejected: it prints an informational line in the first case and an error in
  the second, and returns. When the stored results cannot be read, the tab raises. In all
  three cases nothing is sent, not even the user listing, and the session is unchanged,
  whatever the widgets hold.
\<close>

theorem stage2_rejected_without_stored_brief_id:
  "(brief_id_missing (session w) \<longrightarrow>
      content_writer_submit_tab wd be w =
        (Normal,
         w\<lparr>page := page w @
            [Header ''Submit Completed Content'',
             if analysis_results (session w) = None then
               Info [Txt (''No projects available. Please wait for a brand manager to '' @
                          ''assign you a project.'')]
             else Error [Txt ''No project ID found. Please contact the brand manager.'']]\<rparr>)
      \<and> sent_by (content_writer_submit_tab wd be) w = []
      \<and> session (snd (content_writer_submit_tab wd be w)) = session w)
   \<and> (stored_brief_id (session w) = Some (Inl e) \<longrightarrow>
        content_writer_submit_tab wd be w =
          (Raised e, w\<lparr>page := page w @ [Header ''Submit Completed Content'']\<rparr>)
        \<and> sent_by (content_writer_submit_tab wd be) w = []
        \<and> session (snd (content_writer_submit_tab wd be w)) = session w)"
proof (intro conjI impI)
  assume missing: "brief_id_missing (session w)"
  show run: "content_writer_submit_tab wd be w =
     (Normal,
      w\<lparr>page := page w @
         [Header ''Submit Completed Content'',
          if analysis_results (session w) = None then
            Info [Txt (''No projects available. Please wait for a brand manager to '' @
                       ''assign you a project.'')]
          else Error [Txt ''No project ID found. Please contact the brand manager.'']]\<rparr>)"
    using missing
    by (auto simp: brief_id_missing_def stored_brief_id_def content_writer_submit_tab_def step_defs
        split: option.splits sum.splits)
  show "sent_by (content_writer_submit_tab wd be) w = []"
    by (simp add: run sent_by_def)
  show "session (snd (content_writer_submit_tab wd be w)) = session w"
    by (simp add: run)
next
  assume unreadable: "stored_brief_id (session w) = Some (Inl e)"
  show run: "content_writer_submit_tab wd be w =
          (Raised e, w\<lparr>page := page w @ [Header ''Submit Completed Content'']\<rparr>)"
    using unreadable
    by (auto simp: stored_brief_id_def content_writer_submit_tab_def step_defs
        split: option.splits sum.splits)
  show "sent_by (content_writer_submit_tab wd be) w = []"
    by (simp add: run sent_by_def)
  show "session (snd (content_writer_submit_tab wd be w)) = session w"
    by (simp add: run)
qed

theorem stage2_rejected_without_stored_brief_id_witness:
  "brief_id_missing (session blank_world)
   \<and> brief_id_missing (empty_session\<lparr>analysis_results :=
        Some (JObj [(lit ''report_data'', JObj [(lit ''project_brief_id'', JNull)])])\<rparr>)
   \<and> stored_brief_id (empty_session\<lparr>analysis_results := Some (JArr [])\<rparr>)
        = Some (Inl AttributeError)
   \<and> content_writer_submit_tab
        \<lparr>content_file = None, content_text = lit ''draft'',
         selected_designer = lit ''Dan (dan@x.com)'', submit_content = True\<rparr>
        \<lparr>be_designers = Throws Timeout, be_submit = Throws Timeout\<rparr> blank_world
     = (Normal,
        blank_world\<lparr>page :=
          [Header ''Submit Completed Content'',
           Info [Txt (''No projects available. Please wait for a brand manager to '' @
                      ''assign you a project.'')]]\<rparr>)
   \<and> page (snd (content_writer_submit_tab
        \<lparr>content_file = None, content_text = lit ''draft'',
         selected_designer = lit ''Dan (dan@x.com)'', submit_content = True\<rparr>
        \<lparr>be_designers = Throws Timeout, be_submit = Throws Timeout\<rparr>
        (blank_world\<lparr>session := empty_session\<lparr>analysis_results :=
           Some (JObj [(lit ''report_data'', JObj [(lit ''project_brief_id'', JNull)])])\<rparr>\<rparr>)))
     = [Header ''Submit Completed Content'',
        Error [Txt ''No project ID found. Please contact the brand manager.'']]
   \<and> fst (content_writer_submit_tab
        \<lparr>content_file = None, content_text = lit ''draft'',
         selected_designer = lit ''Dan (dan@x.com)'', submit_content = True\<rparr>
        \<lparr>be_designers = Throws Timeout, be_submit = Throws Timeout\<rparr>
        (blank_world\<lparr>session := empty_session\<lparr>analysis_results := Some (JArr [])\<rparr>\<rparr>))
     = Raised AttributeError"
proof -
  let ?wd = "\<lparr>content_file = None, content_text = lit ''draft'',
         selected_designer = lit ''Dan (dan@x.com)'', submit_content = True\<rparr>"
  let ?be = "\<lparr>be_designers = Throws Timeout, be_submit = Throws Timeout\<rparr>"
  let ?w2 = "blank_world\<lparr>session := empty_session\<lparr>analysis_results :=
        Some (JObj [(lit ''report_data'', JObj [(lit ''project_brief_id'', JNull)])])\<rparr>\<rparr>"
  let ?w3 = "blank_world\<lparr>session := empty_session\<lparr>analysis_results := Some (JArr [])\<rparr>\<rparr>"
  have a: "brief_id_missing (session blank_world)"
    by (simp add: brief_id_missing_def stored_brief_id_def blank_world_def empty_session_def)
  have b: "brief_id_missing (session ?w2)"
    by (simp add: brief_id_missing_def stored_brief_id_def get_def lit_def)
  have c: "stored_brief_id (session ?w3) = Some (Inl AttributeError)"
    by (simp add: stored_brief_id_def)
  show ?thesis
    using a b c
      stage2_rejected_without_stored_brief_id [of blank_world ?wd ?be AttributeError]
      stage2_rejected_without_stored_brief_id [of ?w2 ?wd ?be AttributeError]
      stage2_rejected_without_stored_brief_id [of ?w3 ?wd ?be AttributeError]
    by (simp add: blank_world_def empty_session_def)
qed

section \<open>Changing role\<close>

text \<open>
  C3 as the specification states it asks for the empty session after Change Role. A brand
  manager whose session holds the analysis results and the project brief identifier still
  holds both afterwards, so the session is not the empty one with the role cleared.
\<close>

theorem change_role_keeps_results_counterexample:
  "session (snd (show_brand_manager_page True skip
      \<lparr>session = empty_session\<lparr>user_role := Some (JStr (lit ''brand_manager'')),
                               analysis_results := Some (JObj [(lit ''success'', JBool True)]),
                               project_brief_id := Some (JStr (lit ''PB-123''))\<rparr>,
       page = [], requests = []\<rparr>))
   = empty_session\<lparr>user_role := Some JNull,
                    analysis_results := Some (JObj [(lit ''success'', JBool True)]),
                    project_brief_id := Some (JStr (lit ''PB-123''))\<rparr>
   \<and> empty_session\<lparr>user_role := Some JNull,
                    analysis_results := Some (JObj [(lit ''success'', JBool True)]),
                    project_brief_id := Some (JStr (lit ''PB-123''))\<rparr>
     \<noteq> empty_session\<lparr>user_role := Some JNull\<rparr>"
  by (simp add: show_brand_manager_page_def step_defs empty_session_def)

text \<open>
  C3, as the code has it. The Change Role button of either page sets
  \<^verbatim>\<open>st.session_state.user_role\<close> to \<^verbatim>\<open>None\<close> and reruns; the tab below it is not
  run, nothing is sent, and every other key of the session keeps its value.
\<close>

theorem change_role_only_clears_role:
  "show_brand_manager_page True tab w =
     (Rerun, w\<lparr>session := (session w)\<lparr>user_role := Some JNull\<rparr>,
               page := page w @ [Header ''Brand Manager Dashboard'']\<rparr>)
   \<and> show_content_writer_page True tab w =
     (Rerun, w\<lparr>session := (session w)\<lparr>user_role := Some JNull\<rparr>,
               page := page w @ [Header ''Content Writer Dashboard'']\<rparr>)"
  by (simp add: show_brand_manager_page_def show_content_writer_page_def step_defs)

text \<open>
  The handover between the roles rests on this: after Change Role the session holds a project
  brief identifier for Stage 2 exactly when it held one before.
\<close>

lemma change_role_keeps_brief_id:
  "brief_id_missing (session (snd (show_brand_manager_page True tab w)))
     = brief_id_missing (session w)"
  by (simp add: show_brand_manager_page_def step_defs brief_id_missing_def stored_brief_id_def)

section \<open>Partial integration errors at Stage 2\<close>

text \<open>
  The code shows the Basecamp integration status in three places. After a Stage-1 upload
  (lines 422 to 432) and in the Content History tab (lines 820 to 830) the block ends with
  the line that prints \<^verbatim>\<open>basecamp_integration.errors\<close>. After a Stage-2 submission
  (lines 776 to 781) that line is missing: whatever the response holds, a submission that
  ends normally prints success lines only.
\<close>

lemma stage2_success_prints_success_only:
  "list_all is_success (printed_by (stage2_success content_result) w)"
  by (rule printed_by_prints [OF stage2_success_prints])

lemma stage1_prints_integration_errors:
  "printed_by (stage1_success (JNum 7) \<lparr>file_name = lit ''brief.pdf'', file_bytes = ''abc''\<rparr>
      (JObj [(lit ''basecamp_integration'',
              JObj [(lit ''errors'', JArr [JStr (lit ''notify failed'')])])]) False [])
     blank_world
   = [Success [Txt ''Stage 1 Analysis completed successfully!''],
      Subheader ''Basecamp Integration Status'',
      Error [Txt ''Some errors occurred: '', Val (JArr [JStr (lit ''notify failed'')])],
      Subheader ''Quick Summary'',
      Metric ''Processing Time'' [Fixed2 (JNum 0), Txt ''s''],
      Metric ''Analysis Type'' [Val (JStr (lit ''Unknown''))],
      Metric ''Status'' [Txt ''Failed''],
      Subheader ''Stage 2: Submit Content for Designer'',
      Info [Txt (''After the content writer completes their work, submit the content '' @
                 ''here to generate a designer report.'')],
      Info [Txt ''Switch to 'Analysis Results' tab to view detailed reports'']]"
  by (simp add: stage1_success_def show_analysis_summary_def content_submission_form_def run_defs)

text \<open>
  C4 at Scenario E of the specification. \<^verbatim>\<open>/submit-content\<close> answers 200 with
  \<^verbatim>\<open>basecamp_integration.errors\<close> equal to \<^verbatim>\<open>["notify failed"]\<close>. The result is
  stored under \<^verbatim>\<open>designer_results\<close>, so the stage advances; the lines printed are two
  success messages, and no warning is reported with the transition.
\<close>

theorem stage2_submit_prints_no_warning:
  "submit_content_clicked (JStr (lit ''PB-123'')) (JNum 8) (lit ''draft'') None
     (Response 200 []
        (Some (JObj [(lit ''success'', JBool True),
                     (lit ''basecamp_integration'',
                      JObj [(lit ''designer_uploaded'', JBool True),
                            (lit ''errors'', JArr [JStr (lit ''notify failed'')])])])))
     blank_world
   = (Normal,
      \<lparr>session = empty_session\<lparr>designer_results :=
           Some (JObj [(lit ''success'', JBool True),
                       (lit ''basecamp_integration'',
                        JObj [(lit ''designer_uploaded'', JBool True),
                              (lit ''errors'', JArr [JStr (lit ''notify failed'')])])])\<rparr>,
       page =
         [Success [Txt (''Content submitted successfully! Designer report generated and '' @
                        ''uploaded to Basecamp.'')],
          Success [Txt ''Designer Report uploaded to Basecamp'']],
       requests =
         [Post ''/submit-content'' []
            [(''project_brief_id'', JStr (lit ''PB-123'')), (''designer_id'', JNum 8),
             (''content_writer_id'', JNull), (''content_text'', JStr (lit ''draft''))]]\<rparr>)"
  by (simp add: submit_content_clicked_def post_content_def stage2_success_def content_data_def
      content_files_def run_defs)

section \<open>Stage 2 content: text, file, both or neither\<close>

text \<open>
  C5. With the submit button pressed and a designer selected, content text together with a
  content file passes the checks: exactly one request goes to \<^verbatim>\<open>/submit-content\<close>,
  with the file attached and with both \<^verbatim>\<open>content_text\<close> and \<^verbatim>\<open>has_file\<close> in its
  data, and no validation error is printed. With no file and a text that is empty or holds
  only what Python counts as white space, the handler prints the missing-content error and
  returns; nothing is sent and the session is unchanged.
\<close>

theorem stage2_content_both_or_neither:
  "(strip txt \<noteq> [] \<and> truthy designer_id \<longrightarrow>
      sent_by (submit_content_clicked brief_id designer_id txt (Some f) reply) w =
        [Post ''/submit-content'' [(''content_file'', f)]
           [(''project_brief_id'', brief_id), (''designer_id'', designer_id),
            (''content_writer_id'', JNull), (''content_text'', JStr txt),
            (''has_file'', JBool True)]]
      \<and> list_all not_validation_error
            (printed_by (submit_content_clicked brief_id designer_id txt (Some f) reply) w))
   \<and> (strip txt = [] \<longrightarrow>
        submit_content_clicked brief_id designer_id txt None reply w =
          (Returned,
           w\<lparr>page := page w @
              [Error [Txt ''Please either upload a content document or enter content text'']]\<rparr>))"
proof (intro conjI impI)
  assume a: "strip txt \<noteq> [] \<and> truthy designer_id"
  then have eq: "submit_content_clicked brief_id designer_id txt (Some f) reply =
      post_content brief_id designer_id txt (Some f) reply"
    by (intro ext submit_passes_validation) simp_all
  show "sent_by (submit_content_clicked brief_id designer_id txt (Some f) reply) w =
        [Post ''/submit-content'' [(''content_file'', f)]
           [(''project_brief_id'', brief_id), (''designer_id'', designer_id),
            (''content_writer_id'', JNull), (''content_text'', JStr txt),
            (''has_file'', JBool True)]]"
    using a by (simp add: eq post_content_sends content_files_def content_data_def)
  show "list_all not_validation_error
          (printed_by (submit_content_clicked brief_id designer_id txt (Some f) reply) w)"
    by (simp add: eq printed_by_prints post_content_prints)
next
  assume "strip txt = []"
  then show "submit_content_clicked brief_id designer_id txt None reply w =
          (Returned,
           w\<lparr>page := page w @
              [Error [Txt ''Please either upload a content document or enter content text'']]\<rparr>)"
    by (simp add: submit_content_clicked_def step_defs)
qed

theorem stage2_content_both_or_neither_witness:
  "strip (lit ''draft'') \<noteq> [] \<and> truthy (JNum 8) \<and> strip [0x20, 0xA0, 0x2003] = []
   \<and> sent_by (submit_content_clicked (JStr (lit ''PB-123'')) (JNum 8) (lit ''draft'')
        (Some \<lparr>file_name = lit ''c.txt'', file_bytes = ''abc''\<rparr>)
        (Response 200 [] (Some (JObj []))))
        blank_world =
        [Post ''/submit-content''
           [(''content_file'', \<lparr>file_name = lit ''c.txt'', file_bytes = ''abc''\<rparr>)]
           [(''project_brief_id'', JStr (lit ''PB-123'')), (''designer_id'', JNum 8),
            (''content_writer_id'', JNull), (''content_text'', JStr (lit ''draft'')),
            (''has_file'', JBool True)]]
   \<and> submit_content_clicked (JStr (lit ''PB-123'')) (JNum 8) [0x20, 0xA0, 0x2003] None
        (Response 200 [] (Some (JObj []))) blank_world =
          (Returned,
           blank_world\<lparr>page :=
              [Error [Txt ''Please either upload a content document or enter content text'']]\<rparr>)"
proof -
  have a: "strip (lit ''draft'') \<noteq> []" and b: "strip [0x20, 0xA0, 0x2003] = []"
    by (simp_all add: strip_def isspace_def lit_def)
  show ?thesis
    using a b
      stage2_content_both_or_neither [of "lit ''draft''" "JNum 8" "JStr (lit ''PB-123'')"
        "\<lparr>file_name = lit ''c.txt'', file_bytes = ''abc''\<rparr>" "Response 200 [] (Some (JObj []))"
        blank_world]
      stage2_content_both_or_neither [of "[0x20, 0xA0, 0x2003]" "JNum 8" "JStr (lit ''PB-123'')"
        "\<lparr>file_name = lit ''c.txt'', file_bytes = ''abc''\<rparr>" "Response 200 [] (Some (JObj []))"
        blank_world]
    by (simp add: blank_world_def)
qed

section \<open>Stage 1 without a content writer\<close>

text \<open>
  C6. When the content writer identifier is \<^verbatim>\<open>None\<close> or otherwise not a true value,
  pressing Analyze prints the error that names the missing content writer and returns with no
  request sent and the session untouched. In a whole run of the tab whose selection yields no
  identifier, the only requests are the two listings: \<^verbatim>\<open>/upload\<close> is never called.
  Leaving the selection at \<^verbatim>\<open>"None"\<close> yields no identifier.
\<close>

theorem no_content_writer_no_upload:
  "(\<not> truthy cw_id \<longrightarrow>
      analyze_document atype inc cw_id file reply sc ct w =
        (Returned,
         w\<lparr>page := page w @
            [Error [Txt ''Please select a content writer to receive the Stage 1 report'']]\<rparr>))
   \<and> (\<not> truthy (fst (select_content_writer (be_users be) (selected_content_writer wd))) \<longrightarrow>
        list_all is_get (sent_by (upload_and_analyze_tab atype inc wd be) w))
   \<and> fst (select_content_writer users (lit ''None'')) = JNull"
proof (intro conjI impI)
  show "fst (select_content_writer users (lit ''None'')) = JNull"
    by (simp add: select_content_writer_def resolve_content_writer_def Let_def
        split: reply.split option.split)
qed (simp_all add: analyze_without_writer sent_by_sends upload_tab_without_writer)

theorem no_content_writer_no_upload_witness:
  "\<not> truthy JNull
   \<and> analyze_document (lit ''basic'') True JNull \<lparr>file_name = lit ''brief.pdf'', file_bytes = ''abc''\<rparr>
        (Response 200 [] (Some (JObj []))) False [] blank_world =
        (Returned,
         blank_world\<lparr>page :=
            [Error [Txt ''Please select a content writer to receive the Stage 1 report'']]\<rparr>)
   \<and> sent_by (upload_and_analyze_tab (lit ''basic'') True
         \<lparr>selected_project = lit ''Other - Custom Project'', custom_name = lit ''Acme'',
          selected_content_writer = lit ''None'',
          file_uploader = Some \<lparr>file_name = lit ''brief.pdf'', file_bytes = ''abc''\<rparr>,
          analyze_button = True, bm_content_text = [], bm_submit_content = False\<rparr>
         \<lparr>be_projects = Response 200 []
            (Some \<lparr>success = True,
                   items = [\<lparr>p_id = Some (JNum 9), p_name = Some (lit ''Acme Redesign''),
                             p_description = None, p_status = Some (lit ''active'')\<rparr>]\<rparr>),
          be_users = Response 200 []
            (Some \<lparr>success = True,
                   items = [\<lparr>basecamp_user_id = JNum 7, name = lit ''Jane'',
                             email = lit ''jane@x.com''\<rparr>]\<rparr>),
          be_upload = Response 200 [] (Some (JObj []))\<rparr>) blank_world
       = [Get ''/projects'', Get ''/users'']"
proof -
  let ?wd = "\<lparr>selected_project = lit ''Other - Custom Project'', custom_name = lit ''Acme'',
          selected_content_writer = lit ''None'',
          file_uploader = Some \<lparr>file_name = lit ''brief.pdf'', file_bytes = ''abc''\<rparr>,
          analyze_button = True, bm_content_text = [], bm_submit_content = False\<rparr>"
  let ?be = "\<lparr>be_projects = Response 200 []
            (Some \<lparr>success = True,
                   items = [\<lparr>p_id = Some (JNum 9), p_name = Some (lit ''Acme Redesign''),
                             p_description = None, p_status = Some (lit ''active'')\<rparr>]\<rparr>),
          be_users = Response 200 []
            (Some \<lparr>success = True,
                   items = [\<lparr>basecamp_user_id = JNum 7, name = lit ''Jane'',
                             email = lit ''jane@x.com''\<rparr>]\<rparr>),
          be_upload = Response 200 [] (Some (JObj []))\<rparr>"
  have none: "\<not> truthy (fst (select_content_writer (be_users ?be) (selected_content_writer ?wd)))"
    by (simp add: select_content_writer_def resolve_content_writer_def)
  have run: "sent_by (upload_and_analyze_tab (lit ''basic'') True ?wd ?be) blank_world
       = [Get ''/projects'', Get ''/users'']"
    by (simp add: upload_and_analyze_tab_def select_project_def select_content_writer_def
        resolve_content_writer_def analyze_document_def run_defs)
  show ?thesis
    using none run
      no_content_writer_no_upload [of JNull "lit ''basic''" True
        "\<lparr>file_name = lit ''brief.pdf'', file_bytes = ''abc''\<rparr>" "Response 200 [] (Some (JObj []))"
        False "[]" blank_world ?be ?wd]
    by (simp add: blank_world_def)
qed

section \<open>Recipients that share a display name\<close>





section \<open>The result projection\<close>

text \<open>
  C8. \<^verbatim>\<open>show_analysis_summary\<close> is a function of the response alone: in any state it
  ends the way it ends in the blank state and appends the same lines to the page. It leaves
  the session and the request log as they are, and projecting the same response a second
  time appends the same lines once more.
\<close>

theorem summary_is_pure_projection:
  "show_analysis_summary results w =
     (fst (show_analysis_summary results blank_world),
      w\<lparr>page := page w @ page (snd (show_analysis_summary results blank_world))\<rparr>)
   \<and> session (snd (show_analysis_summary results w)) = session w
   \<and> requests (snd (show_analysis_summary results w)) = requests w
   \<and> page (snd (show_analysis_summary results (snd (show_analysis_summary results w)))) =
       page w @ page (snd (show_analysis_summary results blank_world))
              @ page (snd (show_analysis_summary results blank_world))"
proof -
  obtain s us where m: "\<And>w. show_analysis_summary results w = (s, w\<lparr>page := page w @ us\<rparr>)"
    using printer_show_analysis_summary [of results] unfolding printer_def by auto
  have "page (snd (show_analysis_summary results blank_world)) = us"
    by (simp add: m blank_world_def)
  then show ?thesis by (simp add: m)
qed

text \<open>The summary of a response as the backend documents it (Scenario A of the specification).\<close>

lemma summary_example:
  "show_analysis_summary
     (JObj [(lit ''success'', JBool True), (lit ''processing_time'', JNum (5 / 2)),
            (lit ''analysis_type'', JStr (lit ''basic'')),
            (lit ''report_data'', JObj [(lit ''project_brief_id'', JStr (lit ''PB-123''))])])
     blank_world
   = (Normal,
      blank_world\<lparr>page :=
        [Subheader ''Quick Summary'',
         Metric ''Processing Time'' [Fixed2 (JNum (5 / 2)), Txt ''s''],
         Metric ''Analysis Type'' [Val (JStr (lit ''basic''))],
         Metric ''Status'' [Txt ''Complete''],
         Info [Txt ''**Project ID:** '', Val (JStr (lit ''PB-123''))]]\<rparr>)"
  by (simp add: show_analysis_summary_def run_defs)

section \<open>The brand manager's inline content form\<close>

text \<open>
  What lines 457 to 462 would do if they ran with the form's button pressed and a text that
  is not blank: print a note and a success message and store the text under
  \<^verbatim>\<open>submitted_content\<close>, sending nothing.
\<close>

lemma content_submission_form_stores:
  assumes "clicked" and "strip txt \<noteq> []"
  shows "content_submission_form clicked txt w =
     (Normal,
      w\<lparr>session := (session w)\<lparr>submitted_content := Some (JStr txt)\<rparr>,
        page := page w @
          [Info [Txt (''**Note:** Designer selection will be handled by the content '' @
                      ''writer in their dashboard.'')],
           Success [Txt (''Content submitted successfully! The content writer will now '' @
                         ''handle designer selection and report generation.'')]]\<rparr>)"
  using assms by (simp add: content_submission_form_def step_defs)

text \<open>
  The form sits inside the branch of the Analyze button (line 387). In the run that the
  form's button starts the Analyze button is false, so the branch is skipped: whatever the
  text, the run stores nothing and sends only the two listings.
\<close>

lemma upload_tab_without_click:
  assumes "\<not> analyze_button wd"
  shows "keeps (sends is_get) (upload_and_analyze_tab atype inc wd be)"
  unfolding upload_and_analyze_tab_def using assms
  by (intro keeps_intros)
     (simp_all add: sends_prim keeps_intros select_project_sends_get if_then_def
        split: option.split)

lemma form_submit_run_stores_nothing:
  assumes "streamlit_run wd" and "bm_submit_content wd"
  shows "workflow_fields (session (snd (upload_and_analyze_tab atype inc wd be w)))
           = workflow_fields (session w)
   \<and> submitted_content (session (snd (upload_and_analyze_tab atype inc wd be w)))
           = submitted_content (session w)
   \<and> list_all is_get (sent_by (upload_and_analyze_tab atype inc wd be) w)"
proof -
  have off: "\<not> analyze_button wd" using assms by (simp add: streamlit_run_def)
  let ?a = "\<lparr>at_analysis_type = atype, at_include_suggestions = inc,
             at_widgets = wd, at_backend = be\<rparr>"
  have "\<not> upload_accepted ?a" using off by (simp add: upload_accepted_def)
  then have "same_workflow w (snd (upload_and_analyze_tab atype inc wd be w))"
    using keepsD [OF tab_not_accepted_keeps [of ?a], of w] by simp
  then have wf: "workflow_fields (session (snd (upload_and_analyze_tab atype inc wd be w)))
           = workflow_fields (session w)"
    by (simp add: same_workflow_def)
  have "submitted_content (workflow_fields (session (snd (upload_and_analyze_tab atype inc wd be w))))
           = submitted_content (workflow_fields (session w))"
    by (simp only: wf)
  then have "submitted_content (session (snd (upload_and_analyze_tab atype inc wd be w)))
           = submitted_content (session w)"
    by (simp add: workflow_fields_def)
  then show ?thesis
    using wf sent_by_sends [OF upload_tab_without_click [OF off]] by simp
qed

text \<open>
  C9 at a run of the tab. A brand manager whose session holds the results of a successful
  analysis types \<^verbatim>\<open>draft\<close> into the inline form and presses its button. In the run that
  follows, the text is not stored, the success message of the form is not printed, and the
  two listings are requested from the backend.
\<close>

theorem inline_form_submit_stores_nothing:
  "streamlit_run
     \<lparr>selected_project = lit ''Other - Custom Project'', custom_name = lit ''Acme'',
      selected_content_writer = lit ''Jane (jane@x.com)'',
      file_uploader = Some \<lparr>file_name = lit ''brief.pdf'', file_bytes = ''abc''\<rparr>,
      analyze_button = False, bm_content_text = lit ''draft'', bm_submit_content = True\<rparr>
   \<and> submitted_content (session (snd (upload_and_analyze_tab (lit ''basic'') True
        \<lparr>selected_project = lit ''Other - Custom Project'', custom_name = lit ''Acme'',
         selected_content_writer = lit ''Jane (jane@x.com)'',
         file_uploader = Some \<lparr>file_name = lit ''brief.pdf'', file_bytes = ''abc''\<rparr>,
         analyze_button = False, bm_content_text = lit ''draft'', bm_submit_content = True\<rparr>
        \<lparr>be_projects = Throws ConnectionError,
         be_users = Response 200 []
           (Some \<lparr>success = True,
                  items = [\<lparr>basecamp_user_id = JNum 7, name = lit ''Jane'',
                            email = lit ''jane@x.com''\<rparr>]\<rparr>),
         be_upload = Response 200 [] (Some (JObj []))\<rparr>
        (blank_world\<lparr>session := empty_session
           \<lparr>analysis_results :=
              Some (JObj [(lit ''report_data'',
                           JObj [(lit ''project_brief_id'', JStr (lit ''PB-123''))])]),
            project_brief_id := Some (JStr (lit ''PB-123'')),
            content_writer_id := Some (JNum 7)\<rparr>\<rparr>)))) = None
   \<and> Success [Txt (''Content submitted successfully! The content writer will now '' @
                    ''handle designer selection and report generation.'')]
       \<notin> set (printed_by (upload_and_analyze_tab (lit ''basic'') True
        \<lparr>selected_project = lit ''Other - Custom Project'', custom_name = lit ''Acme'',
         selected_content_writer = lit ''Jane (jane@x.com)'',
         file_uploader = Some \<lparr>file_name = lit ''brief.pdf'', file_bytes = ''abc''\<rparr>,
         analyze_button = False, bm_content_text = lit ''draft'', bm_submit_content = True\<rparr>
        \<lparr>be_projects = Throws ConnectionError,
         be_users = Response 200 []
           (Some \<lparr>success = True,
                  items = [\<lparr>basecamp_user_id = JNum 7, name = lit ''Jane'',
                            email = lit ''jane@x.com''\<rparr>]\<rparr>),
         be_upload = Response 200 [] (Some (JObj []))\<rparr>)
        (blank_world\<lparr>session := empty_session
           \<lparr>analysis_results :=
              Some (JObj [(lit ''report_data'',
                           JObj [(lit ''project_brief_id'', JStr (lit ''PB-123''))])]),
            project_brief_id := Some (JStr (lit ''PB-123'')),
            content_writer_id := Some (JNum 7)\<rparr>\<rparr>))
   \<and> sent_by (upload_and_analyze_tab (lit ''basic'') True
        \<lparr>selected_project = lit ''Other - Custom Project'', custom_name = lit ''Acme'',
         selected_content_writer = lit ''Jane (jane@x.com)'',
         file_uploader = Some \<lparr>file_name = lit ''brief.pdf'', file_bytes = ''abc''\<rparr>,
         analyze_button = False, bm_content_text = lit ''draft'', bm_submit_content = True\<rparr>
        \<lparr>be_projects = Throws ConnectionError,
         be_users = Response 200 []
           (Some \<lparr>success = True,
                  items = [\<lparr>basecamp_user_id = JNum 7, name = lit ''Jane'',
                            email = lit ''jane@x.com''\<rparr>]\<rparr>),
         be_upload = Response 200 [] (Some (JObj []))\<rparr>)
        (blank_world\<lparr>session := empty_session
           \<lparr>analysis_results :=
              Some (JObj [(lit ''report_data'',
                           JObj [(lit ''project_brief_id'', JStr (lit ''PB-123''))])]),
            project_brief_id := Some (JStr (lit ''PB-123'')),
            content_writer_id := Some (JNum 7)\<rparr>\<rparr>)
     = [Get ''/projects'', Get ''/users'']"
  by (simp add: streamlit_run_def upload_and_analyze_tab_def select_project_def
      clear_selected_project_def select_content_writer_def resolve_content_writer_def run_defs)

section \<open>The content writer identifier at Stage 2\<close>

text \<open>
  C10. Whatever the session holds, in particular under \<^verbatim>\<open>content_writer_id\<close>, every
  request to \<^verbatim>\<open>/submit-content\<close> that a run of the Submit Content tab sends carries
  \<^verbatim>\<open>content_writer_id\<close> equal to \<^verbatim>\<open>None\<close>.
\<close>

theorem stage2_request_has_null_writer:
  assumes "Post ''/submit-content'' files data \<in> set (sent_by (content_writer_submit_tab wd be) w)"
  shows "map_of data ''content_writer_id'' = Some JNull"
proof -
  have "list_all null_writer (sent_by (content_writer_submit_tab wd be) w)"
    by (rule sent_by_sends [OF submit_tab_null_writer])
  with assms have "null_writer (Post ''/submit-content'' files data)"
    by (auto simp: list_all_iff)
  then show ?thesis by simp
qed

theorem stage2_request_has_null_writer_witness:
  "Post ''/submit-content'' []
     [(''project_brief_id'', JStr (lit ''PB-123'')), (''designer_id'', JNum 8),
      (''content_writer_id'', JNull), (''content_text'', JStr (lit ''draft''))]
   \<in> set (sent_by
      (content_writer_submit_tab
         \<lparr>content_file = None, content_text = lit ''draft'',
          selected_designer = lit ''Dan (dan@x.com)'', submit_content = True\<rparr>
         \<lparr>be_designers = Response 200 []
            (Some \<lparr>success = True,
                   items = [\<lparr>basecamp_user_id = JNum 8, name = lit ''Dan'', email = lit ''dan@x.com''\<rparr>]\<rparr>),
          be_submit = Response 500 (lit ''boom'') None\<rparr>)
      (blank_world\<lparr>session := empty_session
         \<lparr>analysis_results :=
            Some (JObj [(lit ''report_data'', JObj [(lit ''project_brief_id'', JStr (lit ''PB-123''))])]),
          content_writer_id := Some (JNum 7)\<rparr>\<rparr>))
   \<and> map_of [(''project_brief_id'', JStr (lit ''PB-123'')), (''designer_id'', JNum 8),
              (''content_writer_id'', JNull), (''content_text'', JStr (lit ''draft''))]
         ''content_writer_id'' = Some JNull"
proof -
  have sent: "Post ''/submit-content'' []
     [(''project_brief_id'', JStr (lit ''PB-123'')), (''designer_id'', JNum 8),
      (''content_writer_id'', JNull), (''content_text'', JStr (lit ''draft''))]
   \<in> set (sent_by
      (content_writer_submit_tab
         \<lparr>content_file = None, content_text = lit ''draft'',
          selected_designer = lit ''Dan (dan@x.com)'', submit_content = True\<rparr>
         \<lparr>be_designers = Response 200 []
            (Some \<lparr>success = True,
                   items = [\<lparr>basecamp_user_id = JNum 8, name = lit ''Dan'', email = lit ''dan@x.com''\<rparr>]\<rparr>),
          be_submit = Response 500 (lit ''boom'') None\<rparr>)
      (blank_world\<lparr>session := empty_session
         \<lparr>analysis_results :=
            Some (JObj [(lit ''report_data'', JObj [(lit ''project_brief_id'', JStr (lit ''PB-123''))])]),
          content_writer_id := Some (JNum 7)\<rparr>\<rparr>))"
    by (simp add: content_writer_submit_tab_def submit_content_clicked_def post_content_def
        select_designer_def
        resolve_designer_def content_data_def content_files_def run_defs)
  show ?thesis
    using sent stage2_request_has_null_writer [OF sent] by simp
qed

end
